theory Spec2Isabelle
  imports Main
begin

section \<open>JavaScript strings\<close>

text \<open>
  A JavaScript string is a sequence of UTF-16 code units. The texts this program handles are
  Russian, so a code unit is written as its number (from 0 to 0xFFFF) and not as an 8-bit
  \<open>char\<close>; an ASCII literal is lifted with \<open>ascii\<close>.
\<close>

type_synonym jsstring = "int list"

definition ascii :: "string \<Rightarrow> jsstring" where
  "ascii cs = map of_char cs"

text \<open>\<open>\d\<close>, \<open>\w\<close> and \<open>\s\<close> of a regular expression without the \<open>u\<close> flag.\<close>

definition isDigit :: "int \<Rightarrow> bool" where
  "isDigit c = (0x30 \<le> c \<and> c \<le> 0x39)"

definition isWordChar :: "int \<Rightarrow> bool" where
  "isWordChar c =
     ((0x61 \<le> c \<and> c \<le> 0x7A) \<or> (0x41 \<le> c \<and> c \<le> 0x5A) \<or> isDigit c \<or> c = 0x5F)"

definition isSpace :: "int \<Rightarrow> bool" where
  "isSpace c =
     (c = 0x20 \<or> (0x09 \<le> c \<and> c \<le> 0x0D) \<or> c = 0xA0 \<or> c = 0x1680
      \<or> (0x2000 \<le> c \<and> c \<le> 0x200A) \<or> c = 0x2028 \<or> c = 0x2029 \<or> c = 0x202F
      \<or> c = 0x205F \<or> c = 0x3000 \<or> c = 0xFEFF)"

text \<open>\<open>String.prototype.trim\<close>: white space and line terminators go from both ends.\<close>

definition trim :: "jsstring \<Rightarrow> jsstring" where
  "trim s = rev (dropWhile isSpace (rev (dropWhile isSpace s)))"

text \<open>
  Lower case of one code unit of the Basic Latin block (up to U+007F) or of the Cyrillic
  letters U+0400 to U+045F, the alphabets of the texts and of every pattern below. In a
  text of such code units alone no rule of Unicode looks at the neighbours of a letter or
  gives more than one code unit for one, so \<open>String.prototype.toLowerCase\<close> maps it
  unit by unit.
\<close>

definition plainUnit :: "int \<Rightarrow> bool" where
  "plainUnit c = ((0 \<le> c \<and> c \<le> 0x7F) \<or> (0x400 \<le> c \<and> c \<le> 0x45F))"

definition lowerUnit :: "int \<Rightarrow> int" where
  "lowerUnit c =
     (if 0x41 \<le> c \<and> c \<le> 0x5A then c + 0x20
      else if 0x410 \<le> c \<and> c \<le> 0x42F then c + 0x20
      else if 0x400 \<le> c \<and> c \<le> 0x40F then c + 0x50
      else c)"

text \<open>
  \<open>s.replace(pat, rep)\<close> with a string pattern: the first occurrence of \<open>pat\<close> in
  \<open>s\<close> is replaced, wherever a regular expression had matched before.
\<close>

fun isPrefixOf :: "jsstring \<Rightarrow> jsstring \<Rightarrow> bool" where
  "isPrefixOf [] s = True"
| "isPrefixOf (p # ps) [] = False"
| "isPrefixOf (p # ps) (c # cs) = (p = c \<and> isPrefixOf ps cs)"

fun replaceFirst :: "jsstring \<Rightarrow> jsstring \<Rightarrow> jsstring \<Rightarrow> jsstring" where
  "replaceFirst pat rep [] = (if pat = [] then rep else [])"
| "replaceFirst pat rep (c # cs) =
     (if isPrefixOf pat (c # cs) then rep @ drop (length pat) (c # cs)
      else c # replaceFirst pat rep cs)"

text \<open>The value of a run of digits, as \<open>parseInt(s, 10)\<close> reads it.\<close>

definition digitsVal :: "jsstring \<Rightarrow> int" where
  "digitsVal s = foldl (\<lambda>acc c. 10 * acc + (c - 0x30)) 0 s"

text \<open>\<open>String(n).padStart(2, '0')\<close> and \<open>String(n)\<close> of an integer.\<close>

function digitsOf :: "int \<Rightarrow> jsstring \<Rightarrow> jsstring" where
  "digitsOf n acc =
     (if n < 10 then (0x30 + n) # acc
      else digitsOf (n div 10) ((0x30 + n mod 10) # acc))"
  by pat_completeness auto
termination
  by (relation "measure (\<lambda>(n, acc). nat n)") auto

declare digitsOf.simps [simp del]

definition toStr :: "int \<Rightarrow> jsstring" where
  "toStr n = (if n < 0 then 0x2D # digitsOf (- n) [] else digitsOf n [])"

definition padStart :: "nat \<Rightarrow> int \<Rightarrow> jsstring \<Rightarrow> jsstring" where
  "padStart w c s = replicate (w - length s) c @ s"

definition pad2 :: "int \<Rightarrow> jsstring" where
  "pad2 n = padStart 2 0x30 (toStr n)"

section \<open>Regular expressions\<close>

text \<open>
  The patterns of the program use literals, the classes \<open>\d\<close> and \<open>\s\<close>, bracket
  classes, \<open>\b\<close>, \<open>^\<close>, \<open>$\<close>, groups, alternation, \<open>?\<close> and greedy counted
  repetition of one class. A matcher returns every way to continue from a state, in the
  order in which a backtracking matcher tries them; the first one is the match. A state is
  the code unit before the position (for \<open>\b\<close>), the rest of the input, and the captures.
\<close>

datatype cclass = Digit | Space | OneOf "int list"

datatype regex =
    Eps
  | Lit int
  | Cls cclass
  | WordB
  | Bos
  | Eos
  | Then regex regex
  | Or regex regex
  | Opt regex
  | Grp nat regex
  | Rpt nat "nat option" cclass

type_synonym mstate = "int option \<times> jsstring \<times> (nat \<times> jsstring) list"

fun inClass :: "cclass \<Rightarrow> int \<Rightarrow> bool" where
  "inClass Digit c = isDigit c"
| "inClass Space c = isSpace c"
| "inClass (OneOf cs) c = (c \<in> set cs)"

definition wordBefore :: "int option \<Rightarrow> bool" where
  "wordBefore p = (case p of None \<Rightarrow> False | Some c \<Rightarrow> isWordChar c)"

definition wordAfter :: "jsstring \<Rightarrow> bool" where
  "wordAfter s = (case s of [] \<Rightarrow> False | c # _ \<Rightarrow> isWordChar c)"

text \<open>
  Greedy repetition of a class, between \<open>lo\<close> and \<open>hi\<close> times: the states after
  taking as many code units as allowed come first, the state after \<open>lo\<close> last.
\<close>

fun rpt :: "cclass \<Rightarrow> nat \<Rightarrow> nat option \<Rightarrow> int option \<Rightarrow> jsstring \<Rightarrow> (int option \<times> jsstring) list" where
  "rpt k lo hi p [] = (if lo = 0 then [(p, [])] else [])"
| "rpt k lo hi p (c # cs) =
     (if hi \<noteq> Some 0 \<and> inClass k c
      then rpt k (lo - 1) (map_option (\<lambda>h. h - 1) hi) (Some c) cs
           @ (if lo = 0 then [(p, c # cs)] else [])
      else if lo = 0 then [(p, c # cs)] else [])"

fun ms :: "regex \<Rightarrow> mstate \<Rightarrow> mstate list" where
  "ms Eps st = [st]"
| "ms (Lit c) (p, s, caps) =
     (case s of [] \<Rightarrow> [] | x # xs \<Rightarrow> if x = c then [(Some x, xs, caps)] else [])"
| "ms (Cls k) (p, s, caps) =
     (case s of [] \<Rightarrow> [] | x # xs \<Rightarrow> if inClass k x then [(Some x, xs, caps)] else [])"
| "ms WordB (p, s, caps) = (if wordBefore p \<noteq> wordAfter s then [(p, s, caps)] else [])"
| "ms Bos (p, s, caps) = (if p = None then [(p, s, caps)] else [])"
| "ms Eos (p, s, caps) = (if s = [] then [(p, s, caps)] else [])"
| "ms (Then a b) st = concat (map (ms b) (ms a st))"
| "ms (Or a b) st = ms a st @ ms b st"
| "ms (Opt a) st = ms a st @ [st]"
| "ms (Grp n a) (p, s, caps) =
     map (\<lambda>(p', s', caps'). (p', s', (n, take (length s - length s') s) # caps'))
       (ms a (p, s, caps))"
| "ms (Rpt lo hi k) (p, s, caps) = map (\<lambda>(p', s'). (p', s', caps)) (rpt k lo hi p s)"

text \<open>
  \<open>re.exec(s)\<close> for a pattern without flags: the leftmost start position with a match.
  The result is the matched text (\<open>m[0]\<close>) and the captures (\<open>m[n]\<close>; a group that took no
  part has none).
\<close>

fun execFrom :: "regex \<Rightarrow> int option \<Rightarrow> jsstring \<Rightarrow> (jsstring \<times> (nat \<times> jsstring) list) option" where
  "execFrom re p [] =
     (case ms re (p, [], []) of [] \<Rightarrow> None | (p', s', caps) # _ \<Rightarrow> Some ([], caps))"
| "execFrom re p (c # cs) =
     (case ms re (p, c # cs, []) of
        [] \<Rightarrow> execFrom re (Some c) cs
      | (p', s', caps) # _ \<Rightarrow> Some (take (length (c # cs) - length s') (c # cs), caps))"

definition exec :: "regex \<Rightarrow> jsstring \<Rightarrow> (jsstring \<times> (nat \<times> jsstring) list) option" where
  "exec re s = execFrom re None s"

definition test :: "regex \<Rightarrow> jsstring \<Rightarrow> bool" where
  "test re s = (exec re s \<noteq> None)"

definition group :: "(nat \<times> jsstring) list \<Rightarrow> nat \<Rightarrow> jsstring option" where
  "group caps n = map_of caps n"

text \<open>\<open>parseInt(m[n], 10)\<close> for a group of digits.\<close>

definition capVal :: "(nat \<times> jsstring) list \<Rightarrow> nat \<Rightarrow> int" where
  "capVal caps n = digitsVal (case group caps n of None \<Rightarrow> [] | Some g \<Rightarrow> g)"

definition lits :: "jsstring \<Rightarrow> regex" where
  "lits w = foldr (\<lambda>c r. Then (Lit c) r) w Eps"

definition sq :: "regex list \<Rightarrow> regex" where
  "sq rs = foldr Then rs Eps"

section \<open>Time values and calendar fields\<close>

text \<open>
  A time value is a number of milliseconds since the epoch, as \<open>Date.prototype.getTime\<close>
  returns it; \<open>toISOString\<close> followed by \<open>new Date\<close> gives the same time value back, so
  the ISO string between \<open>zonedDateTimeToUTCISO\<close> and its callers is not spelled out.
  Time values are unbounded integers here: the engine's limit of 8.64e15 milliseconds is
  never reached from a wall clock or from a date of at most four digits.

  \<open>Date.UTC\<close> follows ECMAScript: \<open>DayFromYear\<close>, \<open>MakeDay\<close> with months carried into
  the year, and a year from 0 to 99 read as 1900 plus that year.
\<close>

definition dayFromYear :: "int \<Rightarrow> int" where
  "dayFromYear y =
     365 * (y - 1970) + (y - 1969) div 4 - (y - 1901) div 100 + (y - 1601) div 400"

definition inLeapYear :: "int \<Rightarrow> bool" where
  "inLeapYear y = ((y mod 4 = 0 \<and> y mod 100 \<noteq> 0) \<or> y mod 400 = 0)"

definition monthStart :: "bool \<Rightarrow> int \<Rightarrow> int" where
  "monthStart leap m =
     (if m \<le> 0 then 0 else if m = 1 then 31
      else (if leap then 1 else 0) +
        (if m = 2 then 59 else if m = 3 then 90 else if m = 4 then 120
         else if m = 5 then 151 else if m = 6 then 181 else if m = 7 then 212
         else if m = 8 then 243 else if m = 9 then 273 else if m = 10 then 304
         else 334))"

definition makeDay :: "int \<Rightarrow> int \<Rightarrow> int \<Rightarrow> int" where
  "makeDay y m d =
     (let ym = y + m div 12; mn = m mod 12
      in dayFromYear ym + monthStart (inLeapYear ym) mn + d - 1)"

definition dateUTC :: "int \<Rightarrow> int \<Rightarrow> int \<Rightarrow> int \<Rightarrow> int \<Rightarrow> int \<Rightarrow> int" where
  "dateUTC y m d h mi s =
     (let yr = (if 0 \<le> y \<and> y \<le> 99 then 1900 + y else y)
      in makeDay yr m d * 86400000 + h * 3600000 + mi * 60000 + s * 1000)"

text \<open>
  The calendar fields of a day number (\<open>YearFromTime\<close>, \<open>MonthFromTime\<close>,
  \<open>DateFromTime\<close>). The year is counted in cycles of 400, 100, 4 and 1 years from
  1 January 1601 (day -134774): the last century of a cycle and the last year of four are
  a day longer than the others.
\<close>

definition yearFromDay :: "int \<Rightarrow> int" where
  "yearFromDay d =
     (let d0 = d + 134774;
          n400 = d0 div 146097;
          d1 = d0 mod 146097;
          n100 = min 3 (d1 div 36524);
          d2 = d1 - n100 * 36524;
          n4 = d2 div 1461;
          d3 = d2 mod 1461;
          n1 = min 3 (d3 div 365)
      in 1601 + 400 * n400 + 100 * n100 + 4 * n4 + n1)"

definition monthFromDoy :: "bool \<Rightarrow> int \<Rightarrow> int" where
  "monthFromDoy leap n =
     (if n < monthStart leap 1 then 0 else if n < monthStart leap 2 then 1
      else if n < monthStart leap 3 then 2 else if n < monthStart leap 4 then 3
      else if n < monthStart leap 5 then 4 else if n < monthStart leap 6 then 5
      else if n < monthStart leap 7 then 6 else if n < monthStart leap 8 then 7
      else if n < monthStart leap 9 then 8 else if n < monthStart leap 10 then 9
      else if n < monthStart leap 11 then 10 else 11)"

record civil =
  year :: int
  month :: int
  day :: int
  hour :: int
  minute :: int

record parts = civil +
  second :: int

text \<open>
  A time zone is the function from a time value to the zone's offset from UTC in
  milliseconds at that instant (what \<open>Intl.DateTimeFormat\<close> knows for a zone name).
  \<open>getTzParts\<close> reads the six numeric fields of the formatted local time.
\<close>

type_synonym zone = "int \<Rightarrow> int"

definition getTzParts :: "zone \<Rightarrow> int \<Rightarrow> parts" where
  "getTzParts z t =
     (let secs = (t + z t) div 1000;
          dn = secs div 86400;
          sod = secs mod 86400;
          y = yearFromDay dn;
          doy = dn - dayFromYear y;
          m = monthFromDoy (inLeapYear y) doy
      in \<lparr> year = y, month = m + 1, day = doy - monthStart (inLeapYear y) m + 1,
           hour = sod div 3600, minute = sod mod 3600 div 60, second = sod mod 60 \<rparr>)"

text \<open>\<open>Math.round((asUTC - date.getTime()) / 60000)\<close>: a half rounds up.\<close>

definition getTzOffsetMinutes :: "zone \<Rightarrow> int \<Rightarrow> int" where
  "getTzOffsetMinutes z t =
     (let p = getTzParts z t;
          asUTC = dateUTC (year p) (month p - 1) (day p) (hour p) (minute p) (second p)
      in (asUTC - t + 30000) div 60000)"

text \<open>
  The loop of \<open>zonedDateTimeToUTCISO\<close>: at most two rounds, leaving at the first round
  whose target is within a minute of the guess.
\<close>

fun refine :: "zone \<Rightarrow> int \<Rightarrow> int \<Rightarrow> nat \<Rightarrow> int" where
  "refine z base guessMs 0 = guessMs"
| "refine z base guessMs (Suc n) =
     (let offsetMin = getTzOffsetMinutes z guessMs;
          targetMs = base - offsetMin * 60000
      in if \<bar>targetMs - guessMs\<bar> < 60000 then targetMs else refine z base targetMs n)"

definition zonedDateTimeToUTCISO :: "int \<Rightarrow> int \<Rightarrow> int \<Rightarrow> int \<Rightarrow> int \<Rightarrow> zone \<Rightarrow> int" where
  "zonedDateTimeToUTCISO y mo d h mi z =
     (let guessMs = dateUTC y (mo - 1) d h mi 0 in refine z guessMs guessMs 2)"

definition formatLocalPlain :: "int \<Rightarrow> zone \<Rightarrow> jsstring" where
  "formatLocalPlain t z =
     (let p = getTzParts z t
      in toStr (year p) @ ascii ''-'' @ pad2 (month p) @ ascii ''-'' @ pad2 (day p)
         @ ascii ''T'' @ pad2 (hour p) @ ascii '':'' @ pad2 (minute p) @ ascii '':''
         @ pad2 (second p))"

text \<open>\<open>Date.prototype.getDay\<close> reads the weekday in the zone of the host process.\<close>

definition getDay :: "zone \<Rightarrow> int \<Rightarrow> int" where
  "getDay host t = ((t + host t) div 86400000 + 4) mod 7"

section \<open>The environment of a call\<close>

text \<open>
  What the functions read besides their arguments: the wall clock (\<open>new Date()\<close>), the
  configured zone \<open>TIME_ZONE\<close>, the zone of the host process, and two built-in functions
  whose tables belong to the engine: the parser of date strings (\<open>new Date(text)\<close>,
  \<open>None\<close> for an invalid date), which ECMAScript leaves to the engine outside the ISO
  format, and the case mapping of the engine's version of Unicode.
\<close>

record env =
  clock :: int
  tz :: zone
  host :: zone
  dateParse :: "jsstring \<Rightarrow> int option"
  lowerCase :: "jsstring \<Rightarrow> jsstring"

text \<open>
  \<open>String.prototype.toLowerCase\<close>: computed here for a text of Basic Latin and Cyrillic
  code units, and taken from the engine for a text that holds any other code unit (the
  Kelvin sign becomes k, a capital sigma depends on its neighbours, a letter outside the
  Basic Multilingual Plane is a pair of code units).
\<close>

definition toLowerCase :: "env \<Rightarrow> jsstring \<Rightarrow> jsstring" where
  "toLowerCase e s = (if list_all plainUnit s then map lowerUnit s else lowerCase e s)"

section \<open>The vocabulary and the patterns\<close>

text \<open>The Russian words of the patterns, as code units (transliterated in the names).\<close>

definition ponedelnik :: jsstring where
  "ponedelnik = [0x43F, 0x43E, 0x43D, 0x435, 0x434, 0x435, 0x43B, 0x44C, 0x43D, 0x438, 0x43A]"

definition vtornik :: jsstring where
  "vtornik = [0x432, 0x442, 0x43E, 0x440, 0x43D, 0x438, 0x43A]"

definition sred :: jsstring where
  "sred = [0x441, 0x440, 0x435, 0x434]"

definition chetverg :: jsstring where
  "chetverg = [0x447, 0x435, 0x442, 0x432, 0x435, 0x440, 0x433]"

definition pyatnits :: jsstring where
  "pyatnits = [0x43F, 0x44F, 0x442, 0x43D, 0x438, 0x446]"

definition subbot :: jsstring where
  "subbot = [0x441, 0x443, 0x431, 0x431, 0x43E, 0x442]"

definition voskresenye :: jsstring where
  "voskresenye = [0x432, 0x43E, 0x441, 0x43A, 0x440, 0x435, 0x441, 0x435, 0x43D, 0x44C, 0x435]"

definition poslezavtra :: jsstring where
  "poslezavtra = [0x43F, 0x43E, 0x441, 0x43B, 0x435, 0x437, 0x430, 0x432, 0x442, 0x440, 0x430]"

definition zavtra :: jsstring where
  "zavtra = [0x437, 0x430, 0x432, 0x442, 0x440, 0x430]"

definition segodnya :: jsstring where
  "segodnya = [0x441, 0x435, 0x433, 0x43E, 0x434, 0x43D, 0x44F]"

text \<open>
  The letters: \<open>cyr_v\<close> is the preposition "v", \<open>cyr_o\<close>, \<open>cyr_a\<close>, \<open>cyr_u\<close>,
  \<open>cyr_y\<close> the vowels of the endings.
\<close>

definition cyr_v :: int where "cyr_v = 0x432"
definition cyr_o :: int where "cyr_o = 0x43E"
definition cyr_a :: int where "cyr_a = 0x430"
definition cyr_u :: int where "cyr_u = 0x443"
definition cyr_y :: int where "cyr_y = 0x44B"

text \<open>
  \<open>weekdayDefs\<close>: each entry is \<open>/\bNAME\b|\bv\s+NAME\b/\<close> with the index of the weekday
  (Sunday is 0). The second bracket class of Saturday holds the Latin letter a, as the
  source has it.
\<close>

definition weekdayRe :: "regex \<Rightarrow> regex \<Rightarrow> regex \<Rightarrow> regex" where
  "weekdayRe bare prep acc =
     Or (sq [WordB, bare, WordB]) (sq [WordB, prep, Rpt 1 None Space, acc, WordB])"

definition weekdayDefs :: "(regex \<times> int) list" where
  "weekdayDefs =
     [(weekdayRe (lits ponedelnik) (Lit cyr_v) (lits ponedelnik), 1),
      (weekdayRe (lits vtornik) (lits [cyr_v, cyr_o]) (lits vtornik), 2),
      (weekdayRe (Then (lits sred) (Cls (OneOf [cyr_a, cyr_u, cyr_y]))) (Lit cyr_v)
         (Then (lits sred) (Cls (OneOf [cyr_a, cyr_u]))), 3),
      (weekdayRe (lits chetverg) (Lit cyr_v) (lits chetverg), 4),
      (weekdayRe (Then (lits pyatnits) (Cls (OneOf [cyr_a, cyr_u, cyr_y]))) (Lit cyr_v)
         (Then (lits pyatnits) (Cls (OneOf [cyr_a, cyr_u]))), 5),
      (weekdayRe (Then (lits subbot) (Cls (OneOf [cyr_a, cyr_u, cyr_y]))) (Lit cyr_v)
         (Then (lits subbot) (Cls (OneOf [cyr_u, 0x61]))), 6),
      (weekdayRe (lits voskresenye) (Lit cyr_v) (lits voskresenye), 0)]"

text \<open>\<open>/\bv\s*(\d{1,2})(?::(\d{2}))?\b/\<close> and \<open>/\b(\d{1,2}):(\d{2})\b/\<close> of \<open>extractTime\<close>.\<close>

definition reTimeAt :: regex where
  "reTimeAt =
     sq [WordB, Lit cyr_v, Rpt 0 None Space, Grp 1 (Rpt 1 (Some 2) Digit),
         Opt (sq [Lit 0x3A, Grp 2 (Rpt 2 (Some 2) Digit)]), WordB]"

definition reTimeBare :: regex where
  "reTimeBare =
     sq [WordB, Grp 1 (Rpt 1 (Some 2) Digit), Lit 0x3A, Grp 2 (Rpt 2 (Some 2) Digit), WordB]"

text \<open>\<open>/\b(\d{1,2})[.](\d{1,2})(?:[.](\d{4}))?\b/\<close>, the numeric date.\<close>

definition reDayMonth :: regex where
  "reDayMonth =
     sq [WordB, Grp 1 (Rpt 1 (Some 2) Digit), Cls (OneOf [0x2E]),
         Grp 2 (Rpt 1 (Some 2) Digit),
         Opt (sq [Cls (OneOf [0x2E]), Grp 3 (Rpt 4 (Some 4) Digit)]), WordB]"

text \<open>\<open>/^(\d{4})-(\d{2})-(\d{2})T(\d{2}):(\d{2}):(\d{2})$/\<close> of \<open>parseLocalPlainToDate\<close>.\<close>

definition reLocalPlain :: regex where
  "reLocalPlain =
     sq [Bos, Grp 1 (Rpt 4 (Some 4) Digit), Lit 0x2D, Grp 2 (Rpt 2 (Some 2) Digit), Lit 0x2D,
         Grp 3 (Rpt 2 (Some 2) Digit), Lit 0x54, Grp 4 (Rpt 2 (Some 2) Digit), Lit 0x3A,
         Grp 5 (Rpt 2 (Some 2) Digit), Lit 0x3A, Grp 6 (Rpt 2 (Some 2) Digit), Eos]"

text \<open>
  \<open>/\b\d{4}-\d{2}-\d{2}\b/\<close> and \<open>/\b\d{1,2}[.]\d{1,2}([.]\d{2,4})?\b/\<close> of
  \<open>hasExplicitCalendarDate\<close>.
\<close>

definition reIsoDate :: regex where
  "reIsoDate =
     sq [WordB, Rpt 4 (Some 4) Digit, Lit 0x2D, Rpt 2 (Some 2) Digit, Lit 0x2D,
         Rpt 2 (Some 2) Digit, WordB]"

definition reDottedDate :: regex where
  "reDottedDate =
     sq [WordB, Rpt 1 (Some 2) Digit, Cls (OneOf [0x2E]), Rpt 1 (Some 2) Digit,
         Opt (Grp 1 (sq [Cls (OneOf [0x2E]), Rpt 2 (Some 4) Digit])), WordB]"

text \<open>
  \<open>/(segodnya|zavtra|poslezavtra)/\<close> and the seven nominative weekday names of
  \<open>containsRelativeOrWeekday\<close>; \<open>/(poslezavtra)/\<close>, \<open>/(zavtra)/\<close>, \<open>/(segodnya)/\<close> of
  the parser.
\<close>

definition reRelative :: regex where
  "reRelative = Grp 1 (Or (lits segodnya) (Or (lits zavtra) (lits poslezavtra)))"

definition reWeekdayName :: regex where
  "reWeekdayName =
     Grp 1 (Or (lits ponedelnik) (Or (lits vtornik) (Or (lits (sred @ [cyr_a]))
       (Or (lits chetverg) (Or (lits (pyatnits @ [cyr_a])) (Or (lits (subbot @ [cyr_a]))
         (lits voskresenye)))))))"

definition rePoslezavtra :: regex where
  "rePoslezavtra = Grp 1 (lits poslezavtra)"

definition reZavtra :: regex where
  "reZavtra = Grp 1 (lits zavtra)"

definition reSegodnya :: regex where
  "reSegodnya = Grp 1 (lits segodnya)"

section \<open>The resolver\<close>

text \<open>
  \<open>utcISO\<close> is the ISO string of a time value, or a text passed through. \<open>localPlain\<close> is
  the local string \<open>YYYY-MM-DDTHH:MM:00\<close> that the tools store and compare.
\<close>

datatype utc = ISOString int | Text jsstring

record whenPair =
  utcISO :: utc
  localPlain :: jsstring

definition clamp :: "int \<Rightarrow> int \<Rightarrow> int \<Rightarrow> int" where
  "clamp lo hi x = min hi (max lo x)"

definition extractTime :: "jsstring \<Rightarrow> bool \<times> int \<times> int" where
  "extractTime source =
     (case exec reTimeAt source of
        Some (m0, caps) \<Rightarrow>
          (True, clamp 0 23 (capVal caps 1),
           (case group caps 2 of None \<Rightarrow> 0 | Some g \<Rightarrow> clamp 0 59 (digitsVal g)))
      | None \<Rightarrow>
          (case exec reTimeBare source of
             Some (m0, caps) \<Rightarrow>
               (True, clamp 0 23 (capVal caps 1), clamp 0 59 (capVal caps 2))
           | None \<Rightarrow> (False, 12, 0)))"

definition timeOrNoon :: "jsstring \<Rightarrow> int \<times> int" where
  "timeOrNoon source =
     (case extractTime source of (found, h, m) \<Rightarrow>
        (if found then h else 12, if found then m else 0))"

definition plainOf :: "int \<Rightarrow> int \<Rightarrow> int \<Rightarrow> int \<Rightarrow> int \<Rightarrow> jsstring" where
  "plainOf y mo d h mi =
     toStr y @ ascii ''-'' @ pad2 mo @ ascii ''-'' @ pad2 d @ ascii ''T'' @ pad2 h
       @ ascii '':'' @ pad2 mi @ ascii '':00''"

definition build :: "zone \<Rightarrow> int \<Rightarrow> int \<Rightarrow> int \<Rightarrow> int \<Rightarrow> int \<Rightarrow> whenPair" where
  "build z y mo d h mi =
     \<lparr> utcISO = ISOString (zonedDateTimeToUTCISO y mo d h mi z),
       localPlain = plainOf y mo d h mi \<rparr>"

definition addDaysLocalParts :: "zone \<Rightarrow> 'a civil_scheme \<Rightarrow> int \<Rightarrow> civil" where
  "addDaysLocalParts z ps days =
     (let guess = zonedDateTimeToUTCISO (year ps) (month ps) (day ps) (hour ps) (minute ps) z;
          next = guess + days * 24 * 60 * 60 * 1000;
          p = getTzParts z next
      in \<lparr> year = year p, month = month p, day = day p, hour = hour ps, minute = minute ps \<rparr>)"

text \<open>The body of the weekday loop, for the entry with index \<open>idx\<close> whose pattern matched.\<close>

definition weekdayTarget :: "env \<Rightarrow> parts \<Rightarrow> int \<Rightarrow> jsstring \<Rightarrow> whenPair" where
  "weekdayTarget e nowParts idx lower =
     (let z = tz e;
          nowDate = zonedDateTimeToUTCISO (year nowParts) (month nowParts) (day nowParts)
                      (hour nowParts) (minute nowParts) z;
          nowDOW = getDay (host e) nowDate;
          (h, m) = timeOrNoon lower;
          delta = (if idx - nowDOW < 0 then idx - nowDOW + 7 else idx - nowDOW);
          target = addDaysLocalParts z (nowParts\<lparr>hour := h, minute := m\<rparr>) delta;
          targetDate = zonedDateTimeToUTCISO (year target) (month target) (day target) h m z;
          target' = (if targetDate \<le> nowDate
                     then (addDaysLocalParts z target 7)\<lparr>hour := h, minute := m\<rparr>
                     else target)
      in build z (year target') (month target') (day target') h m)"

definition relativeTarget :: "env \<Rightarrow> parts \<Rightarrow> int \<Rightarrow> jsstring \<Rightarrow> whenPair" where
  "relativeTarget e nowParts days lower =
     (let (h, m) = timeOrNoon lower;
          target = addDaysLocalParts (tz e) (nowParts\<lparr>hour := h, minute := m\<rparr>) days
      in build (tz e) (year target) (month target) (day target) h m)"

definition normalizeWhenLocalPair :: "env \<Rightarrow> jsstring \<Rightarrow> whenPair" where
  "normalizeWhenLocalPair e input =
     (let src = trim input;
          lower = toLowerCase e src;
          nowParts = getTzParts (tz e) (clock e)
      in case find (\<lambda>(re, idx). test re lower) weekdayDefs of
           Some (re, idx) \<Rightarrow> weekdayTarget e nowParts idx lower
         | None \<Rightarrow>
             if test rePoslezavtra lower then relativeTarget e nowParts 2 lower
             else if test reZavtra lower then relativeTarget e nowParts 1 lower
             else if test reSegodnya lower then
               (let (h, m) = timeOrNoon lower
                in build (tz e) (year nowParts) (month nowParts) (day nowParts) h m)
             else
               (case exec reDayMonth lower of
                  Some (dm0, caps) \<Rightarrow>
                    (let d = capVal caps 1;
                         mo = capVal caps 2;
                         y = (case group caps 3 of None \<Rightarrow> year nowParts
                              | Some g \<Rightarrow> digitsVal g);
                         remainder = replaceFirst dm0 (ascii '' '') lower;
                         (h, m) = timeOrNoon remainder
                     in build (tz e) y mo d h m)
                | None \<Rightarrow>
                    (case dateParse e src of
                       Some parsed \<Rightarrow>
                         (let p = getTzParts (tz e) parsed
                          in build (tz e) (year p) (month p) (day p) (hour p) (minute p))
                     | None \<Rightarrow> \<lparr> utcISO = Text src, localPlain = src \<rparr>)))"

definition parseLocalPlainToDate :: "env \<Rightarrow> jsstring \<Rightarrow> int option" where
  "parseLocalPlainToDate e s =
     (case exec reLocalPlain s of
        None \<Rightarrow> dateParse e s
      | Some (m0, caps) \<Rightarrow>
          Some (zonedDateTimeToUTCISO (capVal caps 1) (capVal caps 2) (capVal caps 3)
                  (capVal caps 4) (capVal caps 5) (tz e)))"

definition isLateNightLocal :: "env \<Rightarrow> zone \<Rightarrow> bool" where
  "isLateNightLocal e timeZone =
     (let h = hour (getTzParts timeZone (clock e)) in h \<ge> 22 \<or> h < 4)"

definition hasExplicitCalendarDate :: "env \<Rightarrow> jsstring \<Rightarrow> bool" where
  "hasExplicitCalendarDate e input =
     (let s = toLowerCase e input
      in if test reIsoDate s then True else if test reDottedDate s then True else False)"

definition containsRelativeOrWeekday :: "env \<Rightarrow> jsstring \<Rightarrow> bool" where
  "containsRelativeOrWeekday e input =
     (let s = toLowerCase e input
      in if test reRelative s then True else if test reWeekdayName s then True else False)"

definition formatDateDDMMYYYY :: "env \<Rightarrow> jsstring \<Rightarrow> jsstring" where
  "formatDateDDMMYYYY e date =
     (case parseLocalPlainToDate e date of
        None \<Rightarrow> []
      | Some d \<Rightarrow>
          (let ps = getTzParts (tz e) d
           in pad2 (day ps) @ ascii ''.'' @ pad2 (month ps) @ ascii ''.'' @ toStr (year ps)))"

section \<open>Bookings and the tools\<close>

text \<open>\<open>normalizePhone\<close>: the digits of the text, a Russian number brought to the prefix 7.\<close>

definition normalizePhone :: "jsstring \<Rightarrow> jsstring" where
  "normalizePhone phone =
     (if phone = [] then []
      else
        (let digits = filter isDigit phone
         in if length digits = 11 \<and> (take 1 digits = ascii ''8'' \<or> take 1 digits = ascii ''7'')
            then ascii ''7'' @ drop 1 digits
            else if length digits = 10 then ascii ''7'' @ digits
            else digits))"

text \<open>
  A user id is a number (a Telegram id, or a numeric cell of the sheet), a text (any other
  cell) or \<open>undefined\<close>; \<open>===\<close> on these is equality. A field that is absent and a
  field that holds the empty string are both the empty string here: the program only asks
  such a field whether it is falsy or whether it equals \<open>'canceled'\<close>.
\<close>

datatype userId = IdNum int | IdText jsstring | IdUndefined

record booking =
  userId :: userId
  name :: jsstring
  phone :: jsstring
  phoneNormalized :: jsstring
  whenLocal :: jsstring
  createdAt :: jsstring
  updatedAt :: jsstring
  status :: jsstring
  canceledAt :: jsstring

text \<open>
  \<open>toISOString\<close> for a time value whose year has four digits, and the date that
  \<open>toLocaleDateString('ru-RU', ...)\<close> with two-digit day and month shows in the zone.
\<close>

definition pad3 :: "int \<Rightarrow> jsstring" where
  "pad3 n = padStart 3 0x30 (toStr n)"

definition pad4 :: "int \<Rightarrow> jsstring" where
  "pad4 n = padStart 4 0x30 (toStr n)"

definition toISOString :: "int \<Rightarrow> jsstring" where
  "toISOString t =
     (let p = getTzParts (\<lambda>_. 0) t
      in pad4 (year p) @ ascii ''-'' @ pad2 (month p) @ ascii ''-'' @ pad2 (day p)
         @ ascii ''T'' @ pad2 (hour p) @ ascii '':'' @ pad2 (minute p) @ ascii '':''
         @ pad2 (second p) @ ascii ''.'' @ pad3 (t mod 1000) @ ascii ''Z'')"

definition human :: "env \<Rightarrow> jsstring \<Rightarrow> jsstring" where
  "human e s =
     (case parseLocalPlainToDate e s of
        None \<Rightarrow> s
      | Some d \<Rightarrow>
          (let ps = getTzParts (tz e) d
           in pad2 (day ps) @ ascii ''.'' @ pad2 (month ps) @ ascii ''.'' @ toStr (year ps)))"

text \<open>
  The replies of the tools. \<open>ClarifyDate d\<close> is the prompt that shows the candidate date
  \<open>d\<close> and asks for a full date in the format DD.MM.YYYY; \<open>ClarifyPlain\<close> only asks
  for a full date in that format.
\<close>

datatype reply =
    ClarifyDate jsstring
  | ClarifyPlain
  | AlreadyBooked
  | Created jsstring jsstring jsstring
  | NothingToMove
  | Moved jsstring jsstring
  | NothingToCancel
  | NotFound
  | TooLate
  | Canceled jsstring

definition canceled :: jsstring where
  "canceled = ascii ''canceled''"

text \<open>
  The condition of the late-night branch of \<open>book_trial\<close> and \<open>reschedule_trial\<close>, and
  what the branch returns.
\<close>

definition lateNightAsk :: "env \<Rightarrow> jsstring \<Rightarrow> bool" where
  "lateNightAsk e w =
     (containsRelativeOrWeekday e w \<and> \<not> hasExplicitCalendarDate e w
      \<and> isLateNightLocal e (tz e))"

definition clarify :: "env \<Rightarrow> jsstring \<Rightarrow> reply" where
  "clarify e w =
     (let ddmmyyyy = formatDateDDMMYYYY e (localPlain (normalizeWhenLocalPair e w))
      in if ddmmyyyy \<noteq> [] then ClarifyDate ddmmyyyy else ClarifyPlain)"

text \<open>
  The ledger is the list that \<open>loadBookings\<close> returns; \<open>appendBooking\<close> adds a record at
  its end and \<open>saveBookings\<close> replaces it. A tool takes the ledger and returns its reply
  and the ledger it leaves. The notifications to the administrator are not part of the
  ledger and are left out.
\<close>

definition alreadyHas :: "userId \<Rightarrow> jsstring \<Rightarrow> booking list \<Rightarrow> bool" where
  "alreadyHas telegramUserId phoneNorm existing =
     list_ex (\<lambda>b.
        (let bPhone = normalizePhone (if phoneNormalized b \<noteq> [] then phoneNormalized b else phone b);
             isSameUserOrPhone = (userId b = telegramUserId
                \<or> (phoneNorm \<noteq> [] \<and> bPhone \<noteq> [] \<and> bPhone = phoneNorm));
             isCanceled = (status b = canceled)
         in isSameUserOrPhone \<and> \<not> isCanceled)) existing"

definition book_trial ::
  "env \<Rightarrow> userId \<Rightarrow> jsstring \<Rightarrow> jsstring \<Rightarrow> jsstring \<Rightarrow> booking list \<Rightarrow> reply \<times> booking list" where
  "book_trial e telegramUserId nm ph w ledger =
     (if lateNightAsk e w then (clarify e w, ledger)
      else
        (let phoneNorm = normalizePhone ph
         in if alreadyHas telegramUserId phoneNorm ledger then (AlreadyBooked, ledger)
            else
              (let lp = localPlain (normalizeWhenLocalPair e w);
                   record = \<lparr> userId = telegramUserId, name = nm, phone = ph,
                              phoneNormalized = phoneNorm, whenLocal = lp,
                              createdAt = toISOString (clock e), updatedAt = [],
                              status = [], canceledAt = [] \<rparr>
               in (Created nm ph (human e lp), ledger @ [record]))))"

text \<open>
  The candidates of a user are the positions of the user's bookings that are not
  canceled: the tools change the chosen object in place and save the whole list.
\<close>

definition candidates :: "userId \<Rightarrow> booking list \<Rightarrow> nat list" where
  "candidates telegramUserId ledger =
     filter (\<lambda>i. userId (ledger ! i) = telegramUserId \<and> status (ledger ! i) \<noteq> canceled)
       [0..<length ledger]"

text \<open>
  \<open>new Date(b.createdAt || 0).getTime()\<close>, and \<open>>=\<close> on two such values: a comparison
  with \<open>NaN\<close> is false.
\<close>

definition createdTime :: "env \<Rightarrow> booking \<Rightarrow> int option" where
  "createdTime e b = (if createdAt b = [] then Some 0 else dateParse e (createdAt b))"

definition geTime :: "int option \<Rightarrow> int option \<Rightarrow> bool" where
  "geTime a b = (case (a, b) of (Some x, Some y) \<Rightarrow> x \<ge> y | _ \<Rightarrow> False)"

definition latest :: "env \<Rightarrow> booking list \<Rightarrow> nat \<Rightarrow> nat list \<Rightarrow> nat" where
  "latest e ledger first rest =
     foldl (\<lambda>acc cur.
        if geTime (createdTime e (ledger ! cur)) (createdTime e (ledger ! acc)) then cur else acc)
       first rest"

definition reschedule_trial ::
  "env \<Rightarrow> userId \<Rightarrow> jsstring \<Rightarrow> booking list \<Rightarrow> reply \<times> booking list" where
  "reschedule_trial e telegramUserId newWhen ledger =
     (case candidates telegramUserId ledger of
        [] \<Rightarrow> (NothingToMove, ledger)
      | first # rest \<Rightarrow>
          (let target = latest e ledger first rest;
               oldWhen = whenLocal (ledger ! target)
           in if lateNightAsk e newWhen then (clarify e newWhen, ledger)
              else
                (let lp = localPlain (normalizeWhenLocalPair e newWhen)
                 in (Moved (human e oldWhen) (human e lp),
                     ledger[target := (ledger ! target)
                       \<lparr> whenLocal := lp, updatedAt := toISOString (clock e) \<rparr>]))))"

text \<open>
  The two tests of \<open>cancel_trial\<close>: the stored text equals the resolved one after
  trimming; or both texts give a time value through \<open>parseLocalPlainToDate\<close> and the two
  are less than five minutes apart.
\<close>

definition sameText :: "jsstring \<Rightarrow> booking \<Rightarrow> bool" where
  "sameText lp b = (trim (whenLocal b) = trim lp)"

definition nearTime :: "env \<Rightarrow> jsstring \<Rightarrow> booking \<Rightarrow> bool" where
  "nearTime e lp b =
     (case (parseLocalPlainToDate e (whenLocal b), parseLocalPlainToDate e lp) of
        (Some bd, Some targetDt) \<Rightarrow> \<bar>bd - targetDt\<bar> < 5 * 60 * 1000
      | _ \<Rightarrow> False)"

definition findTarget :: "env \<Rightarrow> jsstring \<Rightarrow> booking list \<Rightarrow> nat list \<Rightarrow> nat option" where
  "findTarget e lp ledger cands =
     (case find (\<lambda>i. sameText lp (ledger ! i)) cands of
        Some i \<Rightarrow> Some i
      | None \<Rightarrow> find (\<lambda>i. nearTime e lp (ledger ! i)) cands)"

text \<open>\<open>isFutureDate(parseWhenToDate(when))\<close>.\<close>

definition isFutureWhen :: "env \<Rightarrow> jsstring \<Rightarrow> bool" where
  "isFutureWhen e w = (case dateParse e w of None \<Rightarrow> False | Some dt \<Rightarrow> dt > clock e)"

definition cancel_trial ::
  "env \<Rightarrow> userId \<Rightarrow> jsstring \<Rightarrow> booking list \<Rightarrow> reply \<times> booking list" where
  "cancel_trial e telegramUserId w ledger =
     (let cands = candidates telegramUserId ledger
      in if cands = [] then (NothingToCancel, ledger)
         else
           (let lp = localPlain (normalizeWhenLocalPair e w)
            in case findTarget e lp ledger cands of
                 None \<Rightarrow> (NotFound, ledger)
               | Some target \<Rightarrow>
                   if \<not> isFutureWhen e (whenLocal (ledger ! target)) then (TooLate, ledger)
                   else
                     (Canceled (human e (whenLocal (ledger ! target))),
                      ledger[target := (ledger ! target)
                        \<lparr> status := canceled, canceledAt := toISOString (clock e) \<rparr>])))"

section \<open>Concrete environments and inputs\<close>

text \<open>
  An engine for the examples. Its parser reads \<open>YYYY-MM-DDTHH:mm:ss.sssZ\<close>, reads
  \<open>YYYY-MM-DDTHH:mm:ss\<close> as a local time of the host, which runs in UTC here, and gives
  an invalid date for every other text (as every engine does for a text without a digit).
  Its case mapping knows no letter outside the two blocks; the examples hold none.
\<close>

definition reIsoUtc :: regex where
  "reIsoUtc =
     sq [Bos, Grp 1 (Rpt 4 (Some 4) Digit), Lit 0x2D, Grp 2 (Rpt 2 (Some 2) Digit), Lit 0x2D,
         Grp 3 (Rpt 2 (Some 2) Digit), Lit 0x54, Grp 4 (Rpt 2 (Some 2) Digit), Lit 0x3A,
         Grp 5 (Rpt 2 (Some 2) Digit), Lit 0x3A, Grp 6 (Rpt 2 (Some 2) Digit), Lit 0x2E,
         Grp 7 (Rpt 3 (Some 3) Digit), Lit 0x5A, Eos]"

definition isoParse :: "jsstring \<Rightarrow> int option" where
  "isoParse s =
     (case exec reIsoUtc s of
        Some (m0, caps) \<Rightarrow>
          Some (dateUTC (capVal caps 1) (capVal caps 2 - 1) (capVal caps 3) (capVal caps 4)
                  (capVal caps 5) (capVal caps 6) + capVal caps 7)
      | None \<Rightarrow>
          (case exec reLocalPlain s of
             Some (m0, caps) \<Rightarrow>
               Some (dateUTC (capVal caps 1) (capVal caps 2 - 1) (capVal caps 3)
                       (capVal caps 4) (capVal caps 5) (capVal caps 6))
           | None \<Rightarrow> None))"

text \<open>
  Asia/Omsk is six hours ahead of UTC throughout; the host runs in UTC. The two clock
  readings are 2025-10-04 23:10 and 2025-10-04 10:00 in Omsk.
\<close>

definition omskZone :: zone where
  "omskZone = (\<lambda>t. 21600000)"

definition utcZone :: zone where
  "utcZone = (\<lambda>t. 0)"

definition envAt :: "int \<Rightarrow> env" where
  "envAt t =
     \<lparr> clock = t, tz = omskZone, host = utcZone, dateParse = isoParse,
       lowerCase = map lowerUnit \<rparr>"

definition lateNight :: int where
  "lateNight = 1759597800000"

definition morning :: int where
  "morning = 1759550400000"

text \<open>A stored booking of user 1, not canceled, and the name and phone of a request.\<close>

definition booking1 :: booking where
  "booking1 =
     \<lparr> userId = IdNum 1, name = ascii ''Ann'', phone = ascii ''+7 913 000-00-01'',
       phoneNormalized = ascii ''79130000001'', whenLocal = ascii ''2025-10-20T12:00:00'',
       createdAt = ascii ''2025-10-01T05:00:00.000Z'', updatedAt = [], status = [],
       canceledAt = [] \<rparr>"

definition ann :: jsstring where
  "ann = ascii ''Ann''"

definition annPhone :: jsstring where
  "annPhone = ascii ''+7 913 000-00-01''"

text \<open>
  A stored booking of user 2 whose phone has no digit, and a request phone without a digit;
  the texts of the examples: a numeric date, the phrase "po pyatnitsam" (on Fridays, the
  weekday in the dative plural), a text with a leading space, the date of \<open>booking1\<close>.
\<close>

definition booking2 :: booking where
  "booking2 =
     \<lparr> userId = IdNum 2, name = ascii ''Bob'', phone = ascii ''(none)'',
       phoneNormalized = [], whenLocal = ascii ''2025-10-21T12:00:00'',
       createdAt = ascii ''2025-10-02T05:00:00.000Z'', updatedAt = [], status = [],
       canceledAt = [] \<rparr>"

definition dashes :: jsstring where
  "dashes = ascii ''-----''"

definition txtDate :: jsstring where
  "txtDate = ascii ''05.10.2025''"

definition poPyatnitsam :: jsstring where
  "poPyatnitsam = [0x43F, cyr_o, 0x20] @ pyatnits @ [cyr_a, 0x43C]"

definition txtAbc :: jsstring where
  "txtAbc = ascii '' abc''"

definition txtOct20 :: jsstring where
  "txtOct20 = ascii ''20.10.2025''"

text \<open>
  The rule of the specification for two texts that refer to the same scheduled moment:
  the stored text equals the resolved one after trimming, or the time values derived from
  the two texts are less than five minutes apart.
\<close>

definition refersTo :: "env \<Rightarrow> jsstring \<Rightarrow> booking \<Rightarrow> bool" where
  "refersTo e lp b =
     (trim (whenLocal b) = trim lp
      \<or> (case parseLocalPlainToDate e (whenLocal b) of
            None \<Rightarrow> False
          | Some bd \<Rightarrow>
              (case parseLocalPlainToDate e lp of
                 None \<Rightarrow> False
               | Some td \<Rightarrow> \<bar>bd - td\<bar> < 300000)))"

text \<open>A reply is a clarification when it is one of the two prompts of the late-night branch.\<close>

fun isClarification :: "reply \<Rightarrow> bool" where
  "isClarification (ClarifyDate d) = True"
| "isClarification ClarifyPlain = True"
| "isClarification r = False"

text \<open>
  The text "25.12.2025 v 18:30" of the specification's example; a clock reading one hour
  after \<open>lateNight\<close> (00:10 on 2025-10-05 in Omsk); the seven phrases "on Monday" to "on
  Sunday" (the preposition, a space and the weekday in the accusative).
\<close>

definition xmas :: jsstring where
  "xmas = ascii ''25.12.2025 '' @ [cyr_v] @ ascii '' 18:30''"

definition afterMidnight :: int where
  "afterMidnight = 1759601400000"

definition weekdayPhrases :: "jsstring list" where
  "weekdayPhrases =
     [[cyr_v, 0x20] @ ponedelnik, [cyr_v, cyr_o, 0x20] @ vtornik,
      [cyr_v, 0x20] @ sred @ [cyr_u], [cyr_v, 0x20] @ chetverg,
      [cyr_v, 0x20] @ pyatnits @ [cyr_u], [cyr_v, 0x20] @ subbot @ [cyr_u],
      [cyr_v, 0x20] @ voskresenye]"


definition occursIn :: "jsstring \<Rightarrow> jsstring \<Rightarrow> bool" where
  "occursIn x s = (\<exists>ps ss. s = ps @ x @ ss)"


text \<open>
  The three phrases of \<open>weekdayPhrases\<close> whose weekday name differs from the nominative
  ("v sredu", "v pyatnitsu", "v subbotu"); the text "25.12.2025 v 18", and the same text
  with a space in the place of the date.
\<close>

definition declinedPhrases :: "jsstring list" where
  "declinedPhrases =
     [[cyr_v, 0x20] @ sred @ [cyr_u], [cyr_v, 0x20] @ pyatnits @ [cyr_u],
      [cyr_v, 0x20] @ subbot @ [cyr_u]]"

definition xmas18 :: jsstring where
  "xmas18 = ascii ''25.12.2025 '' @ [cyr_v] @ ascii '' 18''"

definition rest18 :: jsstring where
  "rest18 = ascii ''  '' @ [cyr_v] @ ascii '' 18''"

text \<open>The text "zavtra v 9" (tomorrow at 9).\<close>

definition zavtraAt9 :: jsstring where
  "zavtraAt9 = zavtra @ ascii '' '' @ [cyr_v] @ ascii '' 9''"

section \<open>Evaluation lemmas\<close>

lemma ascii_eq_Nil [simp]: "(ascii s = []) = (s = [])"
  by (simp add: ascii_def)

lemma tz_envAt [simp]: "tz (envAt t) = omskZone"
  by (simp add: envAt_def)

lemma clock_envAt [simp]: "clock (envAt t) = t"
  by (simp add: envAt_def)

lemma dateParse_envAt [simp]: "dateParse (envAt t) = isoParse"
  by (simp add: envAt_def)

text \<open>The three functions that lower the case of a text, on a text of the two blocks.\<close>

lemma toLowerCase_plain: "list_all plainUnit s \<Longrightarrow> toLowerCase e s = map lowerUnit s"
  by (simp add: toLowerCase_def)

lemma hasExplicitCalendarDate_plain:
  "list_all plainUnit w \<Longrightarrow>
   hasExplicitCalendarDate e w
     = (test reIsoDate (map lowerUnit w) \<or> test reDottedDate (map lowerUnit w))"
  by (auto simp: hasExplicitCalendarDate_def toLowerCase_def Let_def)

lemma containsRelativeOrWeekday_plain:
  "list_all plainUnit w \<Longrightarrow>
   containsRelativeOrWeekday e w
     = (test reRelative (map lowerUnit w) \<or> test reWeekdayName (map lowerUnit w))"
  by (auto simp: containsRelativeOrWeekday_def toLowerCase_def Let_def)

lemma parts_lateNight:
  "getTzParts omskZone lateNight =
     \<lparr>year = 2025, month = 10, day = 4, hour = 23, minute = 10, second = 0\<rparr>"
  by code_simp

lemma parts_morning:
  "getTzParts omskZone morning =
     \<lparr>year = 2025, month = 10, day = 4, hour = 10, minute = 0, second = 0\<rparr>"
  by code_simp

lemma late_lateNight: "isLateNightLocal (envAt lateNight) omskZone"
  by (simp add: isLateNightLocal_def parts_lateNight)

lemma late_morning: "\<not> isLateNightLocal (envAt morning) omskZone"
  by (simp add: isLateNightLocal_def parts_morning)

lemma zavtra_units:
  "list_all plainUnit zavtra"
  "map lowerUnit zavtra = zavtra"
  "trim zavtra = zavtra"
  "test reRelative zavtra = True"
  "test reIsoDate zavtra = False"
  "test reDottedDate zavtra = False"
  by code_simp+

lemma zavtra_relative: "containsRelativeOrWeekday e zavtra"
  by (simp add: containsRelativeOrWeekday_plain zavtra_units)

lemma zavtra_no_date: "\<not> hasExplicitCalendarDate e zavtra"
  by (simp add: hasExplicitCalendarDate_plain zavtra_units)

lemma lower_zavtra: "toLowerCase e (trim zavtra) = zavtra"
  by (simp add: toLowerCase_plain zavtra_units)

lemma zavtra_no_weekday: "find (\<lambda>(re, idx). test re zavtra) weekdayDefs = None"
  by code_simp

lemma zavtra_tests: "test rePoslezavtra zavtra = False" "test reZavtra zavtra = True"
  by code_simp+

lemma zavtra_noon: "timeOrNoon zavtra = (12, 0)"
  by code_simp

lemma add_one_day_oct4:
  "addDaysLocalParts omskZone
     \<lparr>year = 2025, month = 10, day = 4, hour = 12, minute = 0, second = 0\<rparr> 1
   = \<lparr>year = 2025, month = 10, day = 5, hour = 12, minute = 0\<rparr>"
  by code_simp

lemma build_oct5:
  "build omskZone 2025 10 5 12 0 =
     \<lparr>utcISO = ISOString 1759644000000, localPlain = ascii ''2025-10-05T12:00:00''\<rparr>"
  by code_simp

lemma zavtra_late:
  "normalizeWhenLocalPair (envAt lateNight) zavtra =
     \<lparr>utcISO = ISOString 1759644000000, localPlain = ascii ''2025-10-05T12:00:00''\<rparr>"
  by (simp add: normalizeWhenLocalPair_def relativeTarget_def Let_def lower_zavtra
      zavtra_no_weekday zavtra_tests zavtra_noon parts_lateNight add_one_day_oct4 build_oct5)

lemma exec_oct5:
  "exec reLocalPlain (ascii ''2025-10-05T12:00:00'') =
     Some (ascii ''2025-10-05T12:00:00'',
       [(6, ascii ''00''), (5, ascii ''00''), (4, ascii ''12''), (3, ascii ''05''),
        (2, ascii ''10''), (1, ascii ''2025'')])"
  by code_simp

lemma parse_oct5:
  "parseLocalPlainToDate (envAt t) (ascii ''2025-10-05T12:00:00'') = Some 1759644000000"
  unfolding parseLocalPlainToDate_def exec_oct5 tz_envAt option.case prod.case
  by code_simp

lemma parts_oct5:
  "getTzParts omskZone 1759644000000 =
     \<lparr>year = 2025, month = 10, day = 5, hour = 12, minute = 0, second = 0\<rparr>"
  by code_simp

lemma ddmmyyyy_oct5:
  "formatDateDDMMYYYY (envAt t) (ascii ''2025-10-05T12:00:00'') = ascii ''05.10.2025''"
  unfolding formatDateDDMMYYYY_def parse_oct5 tz_envAt Let_def option.case parts_oct5
  by code_simp

lemma clarify_zavtra_late: "clarify (envAt lateNight) zavtra = ClarifyDate (ascii ''05.10.2025'')"
  by (simp add: clarify_def zavtra_late ddmmyyyy_oct5 Let_def)

lemma ask_zavtra_late: "lateNightAsk (envAt lateNight) zavtra"
  by (simp add: lateNightAsk_def zavtra_relative zavtra_no_date late_lateNight)

lemma ask_morning: "\<not> lateNightAsk (envAt morning) w"
  by (simp add: lateNightAsk_def late_morning)

lemma booking1_active: "userId booking1 = IdNum 1" "status booking1 \<noteq> canceled"
  by (simp_all add: booking1_def canceled_def ascii_def)

section \<open>At most one active booking per user\<close>

text \<open>
  C8 (amended). If the ledger holds a booking of the same user id that is not canceled,
  \<open>book_trial\<close> appends nothing and leaves the ledger as it is. Its reply is the
  already-booked message, unless the late-night condition holds for the text: that check
  comes first, and then the reply is the clarification prompt.
\<close>

theorem book_trial_active_user:
  assumes "list_ex (\<lambda>b. userId b = uid \<and> status b \<noteq> canceled) ledger"
  shows "book_trial e uid nm ph w ledger
           = (if lateNightAsk e w then clarify e w else AlreadyBooked, ledger)"
proof -
  from assms have "alreadyHas uid (normalizePhone ph) ledger"
    by (auto simp: alreadyHas_def list_ex_iff Let_def)
  then show ?thesis
    by (simp add: book_trial_def Let_def)
qed

theorem book_trial_active_user_witness:
  "list_ex (\<lambda>b. userId b = IdNum 1 \<and> status b \<noteq> canceled) [booking1]
   \<and> book_trial (envAt morning) (IdNum 1) ann annPhone zavtra [booking1]
       = (AlreadyBooked, [booking1])"
proof -
  have h: "list_ex (\<lambda>b. userId b = IdNum 1 \<and> status b \<noteq> canceled) [booking1]"
    by (simp add: booking1_active)
  show ?thesis
    using h book_trial_active_user [OF h, of "envAt morning" ann annPhone zavtra]
    by (simp add: ask_morning)
qed

text \<open>
  C8 as stated fails: late at night, with a relative word, the user who already has an
  active booking gets the clarification prompt and not the already-booked message.
\<close>

theorem book_trial_active_user_counterexample:
  "list_ex (\<lambda>b. userId b = IdNum 1 \<and> status b \<noteq> canceled) [booking1]
   \<and> book_trial (envAt lateNight) (IdNum 1) ann annPhone zavtra [booking1]
       = (ClarifyDate (ascii ''05.10.2025''), [booking1])
   \<and> ClarifyDate (ascii ''05.10.2025'') \<noteq> AlreadyBooked"
  by (simp add: booking1_active book_trial_def ask_zavtra_late clarify_zavtra_late)

lemma find_None_list_ex: "(find P xs = None) = (\<not> list_ex P xs)"
  by (auto simp: find_None_iff list_ex_iff)

lemma find_Some_holds: "find P xs = Some x \<Longrightarrow> x \<in> set xs \<and> P x"
  by (auto simp: find_Some_iff)

section \<open>The same phone number\<close>

text \<open>
  C10 (amended). \<open>book_trial\<close> creates no booking when a booking of the ledger that is not
  canceled has the same normalized phone number as the request and that number is not
  empty, whoever the booking belongs to. An 11-digit number that starts with 8, the same
  number starting with 7 and the bare 10-digit number all normalize to the 7-prefixed
  digit string.
\<close>

theorem book_trial_same_phone:
  assumes "list_ex (\<lambda>b. status b \<noteq> canceled
              \<and> normalizePhone (if phoneNormalized b \<noteq> [] then phoneNormalized b else phone b)
                  = normalizePhone ph) ledger"
    and "normalizePhone ph \<noteq> []"
    and "length ds = 10" and "list_all isDigit ds"
  shows "snd (book_trial e uid nm ph w ledger) = ledger
         \<and> normalizePhone (0x38 # ds) = 0x37 # ds
         \<and> normalizePhone (0x37 # ds) = 0x37 # ds
         \<and> normalizePhone ds = 0x37 # ds"
proof -
  from assms(1) obtain b where b: "b \<in> set ledger" "status b \<noteq> canceled"
    "normalizePhone (if phoneNormalized b \<noteq> [] then phoneNormalized b else phone b)
       = normalizePhone ph"
    by (auto simp: list_ex_iff)
  have "alreadyHas uid (normalizePhone ph) ledger"
    unfolding alreadyHas_def list_ex_iff Let_def
    using b assms(2) by (intro bexI [of _ b]) auto
  then have 1: "snd (book_trial e uid nm ph w ledger) = ledger"
    by (simp add: book_trial_def Let_def)
  from assms(4) have f: "filter isDigit ds = ds"
    by (simp add: list_all_iff)
  have d8: "isDigit 0x38" and d7: "isDigit 0x37"
    by (simp_all add: isDigit_def)
  from assms(3) have ne: "ds \<noteq> []"
    by auto
  have 2: "normalizePhone (0x38 # ds) = 0x37 # ds"
    using assms(3) by (simp add: normalizePhone_def f d8 Let_def ascii_def)
  have 3: "normalizePhone (0x37 # ds) = 0x37 # ds"
    using assms(3) by (simp add: normalizePhone_def f d7 Let_def ascii_def)
  have 4: "normalizePhone ds = 0x37 # ds"
    using assms(3) ne by (simp add: normalizePhone_def f Let_def ascii_def)
  from 1 2 3 4 show ?thesis by simp
qed

lemma phone_booking1:
  "normalizePhone (if phoneNormalized booking1 \<noteq> [] then phoneNormalized booking1
                   else phone booking1) = ascii ''79130000001''"
  "normalizePhone (ascii ''8 (913) 000-00-01'') = ascii ''79130000001''"
  by code_simp+

theorem book_trial_same_phone_witness:
  "list_ex (\<lambda>b. status b \<noteq> canceled
      \<and> normalizePhone (if phoneNormalized b \<noteq> [] then phoneNormalized b else phone b)
          = normalizePhone (ascii ''8 (913) 000-00-01'')) [booking1]
   \<and> normalizePhone (ascii ''8 (913) 000-00-01'') \<noteq> []
   \<and> length (ascii ''9130000001'') = 10 \<and> list_all isDigit (ascii ''9130000001'')
   \<and> snd (book_trial (envAt morning) (IdNum 2) ann (ascii ''8 (913) 000-00-01'') txtDate
        [booking1]) = [booking1]
   \<and> normalizePhone (0x38 # ascii ''9130000001'') = 0x37 # ascii ''9130000001''
   \<and> normalizePhone (0x37 # ascii ''9130000001'') = 0x37 # ascii ''9130000001''
   \<and> normalizePhone (ascii ''9130000001'') = 0x37 # ascii ''9130000001''"
proof -
  have h1: "list_ex (\<lambda>b. status b \<noteq> canceled
      \<and> normalizePhone (if phoneNormalized b \<noteq> [] then phoneNormalized b else phone b)
          = normalizePhone (ascii ''8 (913) 000-00-01'')) [booking1]"
    by (simp add: booking1_active phone_booking1)
  have h2: "normalizePhone (ascii ''8 (913) 000-00-01'') \<noteq> []"
    by (simp add: phone_booking1)
  have h3: "length (ascii ''9130000001'') = 10"
    by (simp add: ascii_def)
  have h4: "list_all isDigit (ascii ''9130000001'')"
    by code_simp
  show ?thesis
    using h1 h2 h3 h4
      book_trial_same_phone [OF h1 h2 h3 h4, of "envAt morning" "IdNum 2" ann txtDate]
    by simp
qed

text \<open>
  C10 as stated fails where the normalized numbers are equal because both are empty: the
  phone test of \<open>book_trial\<close> asks for a number that is not empty, and the booking is
  created.
\<close>

lemma phone_dashes:
  "normalizePhone dashes = []"
  "normalizePhone (if phoneNormalized booking2 \<noteq> [] then phoneNormalized booking2
                   else phone booking2) = []"
  by code_simp+

lemma booking2_active: "userId booking2 = IdNum 2" "status booking2 \<noteq> canceled"
  by (simp_all add: booking2_def canceled_def ascii_def)

theorem book_trial_same_phone_counterexample:
  "status booking2 \<noteq> canceled
   \<and> normalizePhone (if phoneNormalized booking2 \<noteq> [] then phoneNormalized booking2
                     else phone booking2) = normalizePhone dashes
   \<and> length (snd (book_trial (envAt morning) (IdNum 1) ann dashes txtDate [booking2])) = 2"
  by (simp add: booking2_active phone_dashes book_trial_def ask_morning alreadyHas_def Let_def)

section \<open>Branches of the resolver\<close>

lemma norm_relative1:
  assumes "find (\<lambda>(re, idx). test re (toLowerCase e (trim input))) weekdayDefs = None"
    and "\<not> test rePoslezavtra (toLowerCase e (trim input))"
    and "test reZavtra (toLowerCase e (trim input))"
  shows "normalizeWhenLocalPair e input
           = relativeTarget e (getTzParts (tz e) (clock e)) 1 (toLowerCase e (trim input))"
  using assms by (simp add: normalizeWhenLocalPair_def Let_def)

lemma norm_numeric:
  assumes "find (\<lambda>(re, idx). test re (toLowerCase e (trim input))) weekdayDefs = None"
    and "\<not> test rePoslezavtra (toLowerCase e (trim input))"
    and "\<not> test reZavtra (toLowerCase e (trim input))"
    and "\<not> test reSegodnya (toLowerCase e (trim input))"
    and "exec reDayMonth (toLowerCase e (trim input)) = Some (dm0, caps)"
  shows "normalizeWhenLocalPair e input
           = build (tz e)
               (case group caps 3 of None \<Rightarrow> year (getTzParts (tz e) (clock e))
                | Some g \<Rightarrow> digitsVal g)
               (capVal caps 2) (capVal caps 1)
               (fst (timeOrNoon (replaceFirst dm0 (ascii '' '') (toLowerCase e (trim input)))))
               (snd (timeOrNoon (replaceFirst dm0 (ascii '' '') (toLowerCase e (trim input)))))"
  using assms by (simp add: normalizeWhenLocalPair_def Let_def split: prod.split)

lemma norm_raw:
  assumes "find (\<lambda>(re, idx). test re (toLowerCase e (trim input))) weekdayDefs = None"
    and "\<not> test rePoslezavtra (toLowerCase e (trim input))"
    and "\<not> test reZavtra (toLowerCase e (trim input))"
    and "\<not> test reSegodnya (toLowerCase e (trim input))"
    and "exec reDayMonth (toLowerCase e (trim input)) = None"
    and "dateParse e (trim input) = None"
  shows "normalizeWhenLocalPair e input
           = \<lparr> utcISO = Text (trim input), localPlain = trim input \<rparr>"
  using assms by (simp add: normalizeWhenLocalPair_def Let_def)

section \<open>Texts that no rule reads\<close>

text \<open>
  C9 (amended). When no weekday pattern, no relative word and no numeric date matches the
  trimmed, lower-cased text, and the engine does not parse the trimmed text as a date, the
  resolver returns the trimmed input text as both outputs.
\<close>

theorem unparsed_text_passes_through:
  assumes "find (\<lambda>(re, idx). test re (toLowerCase e (trim input))) weekdayDefs = None"
    and "\<not> test rePoslezavtra (toLowerCase e (trim input))"
    and "\<not> test reZavtra (toLowerCase e (trim input))"
    and "\<not> test reSegodnya (toLowerCase e (trim input))"
    and "exec reDayMonth (toLowerCase e (trim input)) = None"
    and "dateParse e (trim input) = None"
  shows "utcISO (normalizeWhenLocalPair e input) = Text (trim input)
         \<and> localPlain (normalizeWhenLocalPair e input) = trim input"
  using norm_raw [OF assms] by simp

lemma abc_facts:
  "trim txtAbc = ascii ''abc''"
  "list_all plainUnit (ascii ''abc'')"
  "map lowerUnit (ascii ''abc'') = ascii ''abc''"
  "find (\<lambda>(re, idx). test re (ascii ''abc'')) weekdayDefs = None"
  "test rePoslezavtra (ascii ''abc'') = False"
  "test reZavtra (ascii ''abc'') = False"
  "test reSegodnya (ascii ''abc'') = False"
  "exec reDayMonth (ascii ''abc'') = None"
  "isoParse (ascii ''abc'') = None"
  by code_simp+

theorem unparsed_text_passes_through_witness:
  "find (\<lambda>(re, idx). test re (toLowerCase (envAt morning) (trim txtAbc))) weekdayDefs = None
   \<and> \<not> test rePoslezavtra (toLowerCase (envAt morning) (trim txtAbc))
   \<and> \<not> test reZavtra (toLowerCase (envAt morning) (trim txtAbc))
   \<and> \<not> test reSegodnya (toLowerCase (envAt morning) (trim txtAbc))
   \<and> exec reDayMonth (toLowerCase (envAt morning) (trim txtAbc)) = None
   \<and> dateParse (envAt morning) (trim txtAbc) = None
   \<and> utcISO (normalizeWhenLocalPair (envAt morning) txtAbc) = Text (ascii ''abc'')
   \<and> localPlain (normalizeWhenLocalPair (envAt morning) txtAbc) = ascii ''abc''"
proof -
  have h1: "find (\<lambda>(re, idx). test re (toLowerCase (envAt morning) (trim txtAbc))) weekdayDefs = None"
    and h2: "\<not> test rePoslezavtra (toLowerCase (envAt morning) (trim txtAbc))"
    and h3: "\<not> test reZavtra (toLowerCase (envAt morning) (trim txtAbc))"
    and h4: "\<not> test reSegodnya (toLowerCase (envAt morning) (trim txtAbc))"
    and h5: "exec reDayMonth (toLowerCase (envAt morning) (trim txtAbc)) = None"
    and h6: "dateParse (envAt morning) (trim txtAbc) = None"
    by (simp_all add: abc_facts toLowerCase_plain)
  show ?thesis
    using h1 h2 h3 h4 h5 h6 unparsed_text_passes_through [OF h1 h2 h3 h4 h5 h6]
    by (simp add: abc_facts)
qed

text \<open>
  C9 as stated fails for a text with white space at an end: the outputs are the trimmed
  text, not the original one.
\<close>

theorem unparsed_text_passes_through_counterexample:
  "localPlain (normalizeWhenLocalPair (envAt morning) txtAbc) = ascii ''abc''
   \<and> utcISO (normalizeWhenLocalPair (envAt morning) txtAbc) = Text (ascii ''abc'')
   \<and> ascii ''abc'' \<noteq> txtAbc"
proof -
  have "normalizeWhenLocalPair (envAt morning) txtAbc
          = \<lparr> utcISO = Text (trim txtAbc), localPlain = trim txtAbc \<rparr>"
    by (rule norm_raw) (simp_all add: abc_facts toLowerCase_plain)
  moreover have "ascii ''abc'' \<noteq> txtAbc"
    by (simp add: txtAbc_def ascii_def)
  ultimately show ?thesis
    by (simp add: abc_facts)
qed

section \<open>The match of cancel_trial\<close>

lemma nearTime_refersTo: "refersTo e lp b = (sameText lp b \<or> nearTime e lp b)"
  by (simp add: refersTo_def sameText_def nearTime_def split: option.split)

lemma findTarget_None:
  "(findTarget e lp ledger cands = None)
     = (\<not> list_ex (\<lambda>i. refersTo e lp (ledger ! i)) cands)"
  by (auto simp: findTarget_def nearTime_refersTo find_None_list_ex list_ex_iff
      split: option.split dest: find_Some_holds)

lemma findTarget_Some:
  "findTarget e lp ledger cands = Some i \<Longrightarrow> i \<in> set cands \<and> refersTo e lp (ledger ! i)"
  by (auto simp: findTarget_def nearTime_refersTo split: option.splits dest: find_Some_holds)

lemma date_facts:
  "list_all plainUnit (trim txtDate)"
  "map lowerUnit (trim txtDate) = txtDate"
  "find (\<lambda>(re, idx). test re txtDate) weekdayDefs = None"
  "test rePoslezavtra txtDate = False"
  "test reZavtra txtDate = False"
  "test reSegodnya txtDate = False"
  "exec reDayMonth txtDate
     = Some (ascii ''05.10.2025'', [(3, ascii ''2025''), (2, ascii ''10''), (1, ascii ''05'')])"
  "group [(3, ascii ''2025''), (2, ascii ''10''), (1, ascii ''05'')] 3 = Some (ascii ''2025'')"
  "digitsVal (ascii ''2025'') = 2025"
  "capVal [(3, ascii ''2025''), (2, ascii ''10''), (1, ascii ''05'')] 2 = 10"
  "capVal [(3, ascii ''2025''), (2, ascii ''10''), (1, ascii ''05'')] 1 = 5"
  "timeOrNoon (replaceFirst (ascii ''05.10.2025'') (ascii '' '') txtDate) = (12, 0)"
  by code_simp+

lemma lower_txtDate: "toLowerCase e (trim txtDate) = txtDate"
  by (simp add: toLowerCase_plain date_facts)

lemma date_resolved:
  "normalizeWhenLocalPair (envAt t) txtDate =
     \<lparr>utcISO = ISOString 1759644000000, localPlain = ascii ''2025-10-05T12:00:00''\<rparr>"
proof -
  note n = norm_numeric [of "envAt t" txtDate "ascii ''05.10.2025''"
      "[(3, ascii ''2025''), (2, ascii ''10''), (1, ascii ''05'')]",
      unfolded lower_txtDate date_facts tz_envAt option.case fst_conv snd_conv]
  from n show ?thesis
    by (simp add: build_oct5)
qed

lemma oct20_facts:
  "list_all plainUnit (trim txtOct20)"
  "map lowerUnit (trim txtOct20) = txtOct20"
  "find (\<lambda>(re, idx). test re txtOct20) weekdayDefs = None"
  "test rePoslezavtra txtOct20 = False"
  "test reZavtra txtOct20 = False"
  "test reSegodnya txtOct20 = False"
  "exec reDayMonth txtOct20
     = Some (ascii ''20.10.2025'', [(3, ascii ''2025''), (2, ascii ''10''), (1, ascii ''20'')])"
  "group [(3, ascii ''2025''), (2, ascii ''10''), (1, ascii ''20'')] 3 = Some (ascii ''2025'')"
  "digitsVal (ascii ''2025'') = 2025"
  "capVal [(3, ascii ''2025''), (2, ascii ''10''), (1, ascii ''20'')] 2 = 10"
  "capVal [(3, ascii ''2025''), (2, ascii ''10''), (1, ascii ''20'')] 1 = 20"
  "timeOrNoon (replaceFirst (ascii ''20.10.2025'') (ascii '' '') txtOct20) = (12, 0)"
  by code_simp+

lemma lower_txtOct20: "toLowerCase e (trim txtOct20) = txtOct20"
  by (simp add: toLowerCase_plain oct20_facts)

lemma build_oct20:
  "build omskZone 2025 10 20 12 0 =
     \<lparr>utcISO = ISOString 1760940000000, localPlain = ascii ''2025-10-20T12:00:00''\<rparr>"
  by code_simp

lemma oct20_resolved:
  "normalizeWhenLocalPair (envAt t) txtOct20 =
     \<lparr>utcISO = ISOString 1760940000000, localPlain = ascii ''2025-10-20T12:00:00''\<rparr>"
proof -
  note n = norm_numeric [of "envAt t" txtOct20 "ascii ''20.10.2025''"
      "[(3, ascii ''2025''), (2, ascii ''10''), (1, ascii ''20'')]",
      unfolded lower_txtOct20 oct20_facts tz_envAt option.case fst_conv snd_conv]
  from n show ?thesis
    by (simp add: build_oct20)
qed

lemma exec_oct20:
  "exec reLocalPlain (ascii ''2025-10-20T12:00:00'') =
     Some (ascii ''2025-10-20T12:00:00'',
       [(6, ascii ''00''), (5, ascii ''00''), (4, ascii ''12''), (3, ascii ''20''),
        (2, ascii ''10''), (1, ascii ''2025'')])"
  by code_simp

lemma parse_oct20:
  "parseLocalPlainToDate (envAt t) (ascii ''2025-10-20T12:00:00'') = Some 1760940000000"
  unfolding parseLocalPlainToDate_def exec_oct20 tz_envAt option.case prod.case
  by code_simp

lemma trims_oct:
  "trim (ascii ''2025-10-20T12:00:00'') = ascii ''2025-10-20T12:00:00''"
  "trim (ascii ''2025-10-05T12:00:00'') = ascii ''2025-10-05T12:00:00''"
  "(ascii ''2025-10-20T12:00:00'' = ascii ''2025-10-05T12:00:00'') = False"
  by code_simp+

lemma candidates_booking1: "candidates (IdNum 1) [booking1] = [0]"
  by (simp add: candidates_def booking1_active)

lemma when_booking1: "whenLocal booking1 = ascii ''2025-10-20T12:00:00''"
  by (simp add: booking1_def)

lemma booking1_not_oct5:
  "\<not> refersTo (envAt t) (ascii ''2025-10-05T12:00:00'') booking1"
  by (simp add: refersTo_def when_booking1 trims_oct parse_oct20 parse_oct5)

lemma booking1_oct20:
  "refersTo (envAt t) (ascii ''2025-10-20T12:00:00'') booking1"
  by (simp add: refersTo_def when_booking1)

text \<open>
  The example engine reads the stored text of \<open>booking1\<close> as noon of 20 October 2025 in
  UTC, which is after the clock reading \<open>morning\<close>; the date shown for it is 20.10.2025,
  and \<open>morning\<close> is 04:00 in UTC.
\<close>

lemma iso_oct20: "isoParse (ascii ''2025-10-20T12:00:00'') = Some 1760961600000"
  by code_simp

lemma future_booking1: "isFutureWhen (envAt morning) (whenLocal booking1)"
  by (simp add: isFutureWhen_def when_booking1 iso_oct20 morning_def)

lemma parts_oct20:
  "getTzParts omskZone 1760940000000 =
     \<lparr>year = 2025, month = 10, day = 20, hour = 12, minute = 0, second = 0\<rparr>"
  by code_simp

lemma human_booking1: "human (envAt t) (whenLocal booking1) = ascii ''20.10.2025''"
  unfolding human_def when_booking1 parse_oct20 tz_envAt Let_def option.case parts_oct20
  by code_simp

lemma iso_morning: "toISOString morning = ascii ''2025-10-04T04:00:00.000Z''"
  by code_simp

text \<open>
  C7. \<open>cancel_trial\<close> takes a stored booking for the requested one exactly by the rule: a
  candidate of the user refers to the resolved text when the two texts are equal after
  trimming or the time values derived from them are less than five minutes apart. When no
  candidate does, the tool reports that it found nothing (or that the user has nothing to
  cancel) and leaves the ledger as it is. When one does, the tool has picked a candidate
  that does: it cancels that booking, or answers that its time has passed.
\<close>

theorem cancel_trial_match:
  "(\<not> list_ex (\<lambda>i. refersTo e (localPlain (normalizeWhenLocalPair e w)) (ledger ! i))
        (candidates uid ledger)
      \<longrightarrow> cancel_trial e uid w ledger
            = (if candidates uid ledger = [] then NothingToCancel else NotFound, ledger))
   \<and> (list_ex (\<lambda>i. refersTo e (localPlain (normalizeWhenLocalPair e w)) (ledger ! i))
        (candidates uid ledger)
      \<longrightarrow> (\<exists>i\<in>set (candidates uid ledger).
             refersTo e (localPlain (normalizeWhenLocalPair e w)) (ledger ! i)
             \<and> cancel_trial e uid w ledger
                 = (if isFutureWhen e (whenLocal (ledger ! i))
                    then (Canceled (human e (whenLocal (ledger ! i))),
                          ledger[i := (ledger ! i)
                            \<lparr> status := canceled, canceledAt := toISOString (clock e) \<rparr>])
                    else (TooLate, ledger))))"
proof -
  define lp where "lp = localPlain (normalizeWhenLocalPair e w)"
  define cs where "cs = candidates uid ledger"
  have none: "cancel_trial e uid w ledger = (if cs = [] then NothingToCancel else NotFound, ledger)"
    if "\<not> list_ex (\<lambda>i. refersTo e lp (ledger ! i)) cs"
  proof -
    from that have "findTarget e lp ledger cs = None"
      by (simp add: findTarget_None)
    then show ?thesis
      by (simp add: cancel_trial_def Let_def lp_def cs_def)
  qed
  have some: "\<exists>i\<in>set cs. refersTo e lp (ledger ! i)
      \<and> cancel_trial e uid w ledger
          = (if isFutureWhen e (whenLocal (ledger ! i))
             then (Canceled (human e (whenLocal (ledger ! i))),
                   ledger[i := (ledger ! i)
                     \<lparr> status := canceled, canceledAt := toISOString (clock e) \<rparr>])
             else (TooLate, ledger))"
    if "list_ex (\<lambda>i. refersTo e lp (ledger ! i)) cs"
  proof -
    from that have ne: "cs \<noteq> []"
      by auto
    from that have "findTarget e lp ledger cs \<noteq> None"
      by (simp add: findTarget_None)
    then obtain i where i: "findTarget e lp ledger cs = Some i"
      by auto
    note r = findTarget_Some [OF i]
    have "cancel_trial e uid w ledger
          = (if isFutureWhen e (whenLocal (ledger ! i))
             then (Canceled (human e (whenLocal (ledger ! i))),
                   ledger[i := (ledger ! i)
                     \<lparr> status := canceled, canceledAt := toISOString (clock e) \<rparr>])
             else (TooLate, ledger))"
      using ne i by (simp add: cancel_trial_def Let_def lp_def [symmetric] cs_def [symmetric])
    with r show ?thesis
      by blast
  qed
  from none some show ?thesis
    unfolding lp_def cs_def by blast
qed

theorem cancel_trial_match_witness:
  "\<not> list_ex (\<lambda>i. refersTo (envAt morning)
            (localPlain (normalizeWhenLocalPair (envAt morning) txtDate)) ([booking1] ! i))
          (candidates (IdNum 1) [booking1])
   \<and> cancel_trial (envAt morning) (IdNum 1) txtDate [booking1] = (NotFound, [booking1])
   \<and> list_ex (\<lambda>i. refersTo (envAt morning)
            (localPlain (normalizeWhenLocalPair (envAt morning) txtOct20)) ([booking1] ! i))
          (candidates (IdNum 1) [booking1])
   \<and> cancel_trial (envAt morning) (IdNum 1) txtOct20 [booking1]
       = (Canceled (ascii ''20.10.2025''),
          [booking1\<lparr> status := canceled, canceledAt := ascii ''2025-10-04T04:00:00.000Z'' \<rparr>])"
proof -
  have h1: "\<not> list_ex (\<lambda>i. refersTo (envAt morning)
            (localPlain (normalizeWhenLocalPair (envAt morning) txtDate)) ([booking1] ! i))
          (candidates (IdNum 1) [booking1])"
    by (simp add: candidates_booking1 date_resolved booking1_not_oct5)
  have h2: "list_ex (\<lambda>i. refersTo (envAt morning)
            (localPlain (normalizeWhenLocalPair (envAt morning) txtOct20)) ([booking1] ! i))
          (candidates (IdNum 1) [booking1])"
    by (simp add: candidates_booking1 oct20_resolved booking1_oct20)
  note a = cancel_trial_match [of "envAt morning" txtDate "[booking1]" "IdNum 1"]
  note b = cancel_trial_match [of "envAt morning" txtOct20 "[booking1]" "IdNum 1"]
  from a h1 have 1: "cancel_trial (envAt morning) (IdNum 1) txtDate [booking1]
      = (NotFound, [booking1])"
    by (simp add: candidates_booking1)
  from b h2 have 2: "cancel_trial (envAt morning) (IdNum 1) txtOct20 [booking1]
       = (Canceled (ascii ''20.10.2025''),
          [booking1\<lparr> status := canceled, canceledAt := ascii ''2025-10-04T04:00:00.000Z'' \<rparr>])"
    by (simp add: candidates_booking1 future_booking1 human_booking1 iso_morning)
  from h1 1 h2 2 show ?thesis
    by blast
qed

section \<open>Words that occur in a text\<close>

text \<open>
  A pattern that is an alternation of plain words matches a text exactly when one of the
  words occurs in it.
\<close>

lemma isPrefixOf_iff: "isPrefixOf w s = (\<exists>ss. s = w @ ss)"
  by (induction w s rule: isPrefixOf.induct) auto










section \<open>The late-night clarification\<close>

lemma clarify_is_clarification [simp]: "isClarification (clarify e w)"
  by (simp add: clarify_def Let_def)

lemma book_trial_clarifies:
  "isClarification (fst (book_trial e uid nm ph w ledger)) = lateNightAsk e w"
  by (simp add: book_trial_def Let_def)









text \<open>
  The word test of the late-night condition lists the weekday names in the nominative
  only, while the patterns of the resolver list the endings of the other cases too. At
  23:10 the phrases "v sredu", "v pyatnitsu" and "v subbotu" hold a weekday name and no
  explicit date, and \<open>book_trial\<close> does not ask: it goes on and stores a booking.
\<close>

lemma declined_words:
  "list_all (\<lambda>w. list_all plainUnit w
      \<and> \<not> test reRelative (map lowerUnit w) \<and> \<not> test reWeekdayName (map lowerUnit w)
      \<and> \<not> test reIsoDate (map lowerUnit w) \<and> \<not> test reDottedDate (map lowerUnit w))
     declinedPhrases"
  by code_simp

lemma declined_not_clarified:
  "list_all (\<lambda>w. \<not> hasExplicitCalendarDate (envAt lateNight) w
      \<and> \<not> isClarification (fst (book_trial (envAt lateNight) uid nm ph w ledger)))
     declinedPhrases"
proof -
  have "\<not> hasExplicitCalendarDate (envAt lateNight) w
        \<and> \<not> isClarification (fst (book_trial (envAt lateNight) uid nm ph w ledger))"
    if "list_all plainUnit w
      \<and> \<not> test reRelative (map lowerUnit w) \<and> \<not> test reWeekdayName (map lowerUnit w)
      \<and> \<not> test reIsoDate (map lowerUnit w) \<and> \<not> test reDottedDate (map lowerUnit w)" for w
    using that
    by (simp add: book_trial_clarifies lateNightAsk_def containsRelativeOrWeekday_plain
        hasExplicitCalendarDate_plain)
  then show ?thesis
    using declined_words by (simp add: list_all_iff)
qed

text \<open>
  C6 (amended). When the late-night condition holds, \<open>book_trial\<close> returns the
  clarification and the ledger as it was, and \<open>reschedule_trial\<close> leaves the ledger as it
  was and returns the clarification when the user has a booking to move. When the resolved
  local string gives a date, the clarification shows that date as DD.MM.YYYY and asks for
  a full date in that format; when it gives none, the clarification only asks for a full
  date.
\<close>

theorem late_night_prompt:
  assumes "lateNightAsk e w"
  shows "book_trial e uid nm ph w ledger = (clarify e w, ledger)
         \<and> snd (reschedule_trial e uid w ledger) = ledger
         \<and> (candidates uid ledger \<noteq> [] \<longrightarrow> fst (reschedule_trial e uid w ledger) = clarify e w)
         \<and> clarify e w =
             (case parseLocalPlainToDate e (localPlain (normalizeWhenLocalPair e w)) of
                None \<Rightarrow> ClarifyPlain
              | Some t \<Rightarrow>
                  ClarifyDate (pad2 (day (getTzParts (tz e) t)) @ ascii ''.''
                    @ pad2 (month (getTzParts (tz e) t)) @ ascii ''.''
                    @ toStr (year (getTzParts (tz e) t))))"
proof -
  have 1: "book_trial e uid nm ph w ledger = (clarify e w, ledger)"
    using assms by (simp add: book_trial_def)
  have 2: "snd (reschedule_trial e uid w ledger) = ledger"
    using assms by (simp add: reschedule_trial_def Let_def split: list.split)
  have 3: "candidates uid ledger \<noteq> [] \<longrightarrow> fst (reschedule_trial e uid w ledger) = clarify e w"
    using assms by (simp add: reschedule_trial_def Let_def split: list.split)
  have 4: "clarify e w =
             (case parseLocalPlainToDate e (localPlain (normalizeWhenLocalPair e w)) of
                None \<Rightarrow> ClarifyPlain
              | Some t \<Rightarrow>
                  ClarifyDate (pad2 (day (getTzParts (tz e) t)) @ ascii ''.''
                    @ pad2 (month (getTzParts (tz e) t)) @ ascii ''.''
                    @ toStr (year (getTzParts (tz e) t))))"
    by (cases "parseLocalPlainToDate e (localPlain (normalizeWhenLocalPair e w))")
      (simp_all add: clarify_def formatDateDDMMYYYY_def Let_def)
  from 1 2 3 4 show ?thesis by blast
qed

theorem late_night_prompt_witness:
  "lateNightAsk (envAt lateNight) zavtra
   \<and> book_trial (envAt lateNight) (IdNum 1) ann annPhone zavtra [booking1]
       = (ClarifyDate (ascii ''05.10.2025''), [booking1])
   \<and> candidates (IdNum 1) [booking1] \<noteq> []
   \<and> reschedule_trial (envAt lateNight) (IdNum 1) zavtra [booking1]
       = (ClarifyDate (ascii ''05.10.2025''), [booking1])
   \<and> parseLocalPlainToDate (envAt lateNight)
         (localPlain (normalizeWhenLocalPair (envAt lateNight) zavtra)) = Some 1759644000000"
proof -
  have c: "candidates (IdNum 1) [booking1] \<noteq> []"
    by (simp add: candidates_booking1)
  have p: "parseLocalPlainToDate (envAt lateNight)
         (localPlain (normalizeWhenLocalPair (envAt lateNight) zavtra)) = Some 1759644000000"
    by (simp add: zavtra_late parse_oct5)
  have d: "pad2 5 @ ascii ''.'' @ pad2 10 @ ascii ''.'' @ toStr 2025 = ascii ''05.10.2025''"
    by code_simp
  note t = late_night_prompt [OF ask_zavtra_late, of "IdNum 1" ann annPhone "[booking1]"]
  from t have "clarify (envAt lateNight) zavtra = ClarifyDate (ascii ''05.10.2025'')"
    by (simp add: p parts_oct5 d)
  with t c p ask_zavtra_late show ?thesis
    by (simp add: prod_eq_iff)
qed

text \<open>
  C6 as stated fails for a text in which a weekday name occurs inside a longer word, as
  in "po pyatnitsam": the word test of the late-night condition finds the name, no pattern
  of the resolver matches, the resolver returns the text as it is, no date can be shown,
  and the prompt is the one without a candidate date.
\<close>

lemma poPyatnitsam_facts:
  "list_all plainUnit poPyatnitsam"
  "map lowerUnit poPyatnitsam = poPyatnitsam"
  "test reWeekdayName poPyatnitsam = True"
  "test reIsoDate poPyatnitsam = False"
  "test reDottedDate poPyatnitsam = False"
  "trim poPyatnitsam = poPyatnitsam"
  "find (\<lambda>(re, idx). test re poPyatnitsam) weekdayDefs = None"
  "test rePoslezavtra poPyatnitsam = False"
  "test reZavtra poPyatnitsam = False"
  "test reSegodnya poPyatnitsam = False"
  "exec reDayMonth poPyatnitsam = None"
  "isoParse poPyatnitsam = None"
  "exec reLocalPlain poPyatnitsam = None"
  by code_simp+

lemma poPyatnitsam_raw:
  "normalizeWhenLocalPair (envAt t) poPyatnitsam
     = \<lparr> utcISO = Text poPyatnitsam, localPlain = poPyatnitsam \<rparr>"
  using norm_raw [of "envAt t" poPyatnitsam]
  by (simp add: poPyatnitsam_facts toLowerCase_plain)

lemma poPyatnitsam_clarify: "clarify (envAt t) poPyatnitsam = ClarifyPlain"
  by (simp add: clarify_def poPyatnitsam_raw formatDateDDMMYYYY_def parseLocalPlainToDate_def
      poPyatnitsam_facts)

theorem late_night_prompt_counterexample:
  "lateNightAsk (envAt lateNight) poPyatnitsam
   \<and> book_trial (envAt lateNight) (IdNum 1) ann annPhone poPyatnitsam [] = (ClarifyPlain, [])"
  by (simp add: lateNightAsk_def containsRelativeOrWeekday_plain hasExplicitCalendarDate_plain
      poPyatnitsam_facts late_lateNight book_trial_def poPyatnitsam_clarify)

section \<open>The numeric date rule\<close>

text \<open>
  \<open>replaceFirst\<close> leaves a text without the pattern as it is, and replaces the first
  occurrence of the pattern: the one with no occurrence starting before it.
\<close>

lemma replaceFirst_absent:
  assumes "pat \<noteq> []" and "\<not> occursIn pat s"
  shows "replaceFirst pat rep s = s"
  using assms
proof (induction s)
  case Nil
  then show ?case by simp
next
  case (Cons c cs)
  have "\<not> isPrefixOf pat (c # cs)"
  proof
    assume "isPrefixOf pat (c # cs)"
    then obtain ss where "c # cs = [] @ pat @ ss"
      by (auto simp: isPrefixOf_iff)
    then have "occursIn pat (c # cs)"
      unfolding occursIn_def by blast
    with Cons.prems show False by simp
  qed
  moreover have "\<not> occursIn pat cs"
  proof
    assume "occursIn pat cs"
    then obtain ps ss where "c # cs = (c # ps) @ pat @ ss"
      by (auto simp: occursIn_def)
    then have "occursIn pat (c # cs)"
      unfolding occursIn_def by blast
    with Cons.prems show False by simp
  qed
  ultimately show ?case
    using Cons.IH Cons.prems(1) by simp
qed

lemma replaceFirst_first:
  assumes "pat \<noteq> []"
    and "\<forall>n < length ps. \<not> isPrefixOf pat (drop n (ps @ pat @ ss))"
  shows "replaceFirst pat rep (ps @ pat @ ss) = ps @ rep @ ss"
  using assms
proof (induction ps)
  case Nil
  from Nil.prems(1) obtain c cs where c: "pat @ ss = c # cs"
    by (cases pat) auto
  have "isPrefixOf pat (c # cs)"
    unfolding c [symmetric] by (simp add: isPrefixOf_iff)
  moreover have "drop (length pat) (c # cs) = ss"
    unfolding c [symmetric] by simp
  ultimately have "replaceFirst pat rep (c # cs) = rep @ ss"
    by simp
  then show ?case
    by (simp add: c)
next
  case (Cons c ps)
  from Cons.prems(2) have "\<not> isPrefixOf pat (drop 0 ((c # ps) @ pat @ ss))"
    by blast
  then have n0: "\<not> isPrefixOf pat (c # ps @ pat @ ss)"
    by simp
  have "\<forall>n < length ps. \<not> isPrefixOf pat (drop n (ps @ pat @ ss))"
  proof (intro allI impI)
    fix n assume "n < length ps"
    then have "Suc n < length (c # ps)"
      by simp
    with Cons.prems(2) have "\<not> isPrefixOf pat (drop (Suc n) ((c # ps) @ pat @ ss))"
      by blast
    then show "\<not> isPrefixOf pat (drop n (ps @ pat @ ss))"
      by simp
  qed
  with Cons.IH Cons.prems(1) have "replaceFirst pat rep (ps @ pat @ ss) = ps @ rep @ ss"
    by blast
  with n0 show ?case
    by simp
qed

lemma xmas_facts:
  "list_all plainUnit (trim xmas)"
  "map lowerUnit (trim xmas) = xmas"
  "find (\<lambda>(re, idx). test re xmas) weekdayDefs = None"
  "test rePoslezavtra xmas = False"
  "test reZavtra xmas = False"
  "test reSegodnya xmas = False"
  "exec reDayMonth xmas
     = Some (ascii ''25.12.2025'', [(3, ascii ''2025''), (2, ascii ''12''), (1, ascii ''25'')])"
  "group [(3, ascii ''2025''), (2, ascii ''12''), (1, ascii ''25'')] 3 = Some (ascii ''2025'')"
  "digitsVal (ascii ''2025'') = 2025"
  "capVal [(3, ascii ''2025''), (2, ascii ''12''), (1, ascii ''25'')] 2 = 12"
  "capVal [(3, ascii ''2025''), (2, ascii ''12''), (1, ascii ''25'')] 1 = 25"
  "timeOrNoon (replaceFirst (ascii ''25.12.2025'') (ascii '' '') xmas) = (18, 30)"
  "plainOf 2025 12 25 18 30 = ascii ''2025-12-25T18:30:00''"
  by code_simp+

lemma lower_xmas: "toLowerCase e (trim xmas) = xmas"
  by (simp add: toLowerCase_plain xmas_facts)

text \<open>
  The text "25.12.2025 v 18:30" resolves to the local string 2025-12-25T18:30:00, for
  every clock, zone and engine: its time is read by the pattern for a bare H:MM.
\<close>

lemma xmas_resolved:
  "localPlain (normalizeWhenLocalPair e xmas) = ascii ''2025-12-25T18:30:00''"
proof -
  note n = norm_numeric [of e xmas "ascii ''25.12.2025''"
      "[(3, ascii ''2025''), (2, ascii ''12''), (1, ascii ''25'')]",
      unfolded lower_xmas xmas_facts option.case fst_conv snd_conv]
  from n show ?thesis
    by (simp add: build_def xmas_facts)
qed

text \<open>
  The first time pattern starts with \<open>\b\<close> before the Cyrillic letter "v", which is no
  word character: it can match only directly behind an ASCII letter, a digit or an
  underscore, never at the start of a text or behind a space.
\<close>

lemma reTimeAt_needs_word: "\<not> wordBefore p \<Longrightarrow> ms reTimeAt (p, s, caps) = []"
  by (cases s)
    (simp_all add: reTimeAt_def sq_def wordAfter_def isWordChar_def isDigit_def cyr_v_def)

lemma xmas18_facts:
  "list_all plainUnit (trim xmas18)"
  "map lowerUnit (trim xmas18) = xmas18"
  "find (\<lambda>(re, idx). test re xmas18) weekdayDefs = None"
  "test rePoslezavtra xmas18 = False"
  "test reZavtra xmas18 = False"
  "test reSegodnya xmas18 = False"
  "exec reDayMonth xmas18
     = Some (ascii ''25.12.2025'', [(3, ascii ''2025''), (2, ascii ''12''), (1, ascii ''25'')])"
  "replaceFirst (ascii ''25.12.2025'') (ascii '' '') xmas18 = rest18"
  "exec reTimeAt rest18 = None"
  "exec reTimeBare rest18 = None"
  "plainOf 2025 12 25 12 0 = ascii ''2025-12-25T12:00:00''"
  by code_simp+

lemma lower_xmas18: "toLowerCase e (trim xmas18) = xmas18"
  by (simp add: toLowerCase_plain xmas18_facts)

text \<open>
  C5 says that the time of a numeric date is read from the rest of the text and is 12:00
  only when the rest holds no clock time. The code does not do so at the text
  "25.12.2025 v 18": the date is read, the rest of the text is " v 18" behind the space
  that replaces the date (\<open>rest18\<close>), neither time pattern matches there, \<open>extractTime\<close>
  reports that it found no time, and the local string is 2025-12-25T12:00:00, for every
  clock, zone and engine.
\<close>

theorem numeric_date_hour_unread:
  "exec reDayMonth (toLowerCase e (trim xmas18))
     = Some (ascii ''25.12.2025'', [(3, ascii ''2025''), (2, ascii ''12''), (1, ascii ''25'')])
   \<and> replaceFirst (ascii ''25.12.2025'') (ascii '' '') (toLowerCase e (trim xmas18)) = rest18
   \<and> extractTime rest18 = (False, 12, 0)
   \<and> localPlain (normalizeWhenLocalPair e xmas18) = ascii ''2025-12-25T12:00:00''"
proof -
  have t: "extractTime rest18 = (False, 12, 0)"
    by (simp add: extractTime_def xmas18_facts)
  note n = norm_numeric [of e xmas18 "ascii ''25.12.2025''"
      "[(3, ascii ''2025''), (2, ascii ''12''), (1, ascii ''25'')]",
      unfolded lower_xmas18 xmas18_facts xmas_facts option.case fst_conv snd_conv]
  from n have "localPlain (normalizeWhenLocalPair e xmas18) = ascii ''2025-12-25T12:00:00''"
    by (simp add: build_def timeOrNoon_def t xmas18_facts)
  with t show ?thesis
    by (simp add: lower_xmas18 xmas18_facts)
qed

text \<open>
  The same holds behind a relative word: at 10:00 on 4 October 2025 the text "zavtra v 9"
  resolves to noon of 5 October, not to 09:00.
\<close>

lemma zavtraAt9_facts:
  "list_all plainUnit (trim zavtraAt9)"
  "map lowerUnit (trim zavtraAt9) = zavtraAt9"
  "find (\<lambda>(re, idx). test re zavtraAt9) weekdayDefs = None"
  "test rePoslezavtra zavtraAt9 = False"
  "test reZavtra zavtraAt9 = True"
  "extractTime zavtraAt9 = (False, 12, 0)"
  by code_simp+

lemma zavtraAt9_resolved:
  "normalizeWhenLocalPair (envAt morning) zavtraAt9 =
     \<lparr>utcISO = ISOString 1759644000000, localPlain = ascii ''2025-10-05T12:00:00''\<rparr>"
proof -
  have l: "toLowerCase (envAt morning) (trim zavtraAt9) = zavtraAt9"
    by (simp add: toLowerCase_plain zavtraAt9_facts)
  have "normalizeWhenLocalPair (envAt morning) zavtraAt9
          = relativeTarget (envAt morning) (getTzParts omskZone morning) 1 zavtraAt9"
    using norm_relative1 [of "envAt morning" zavtraAt9] by (simp add: l zavtraAt9_facts)
  then show ?thesis
    by (simp add: relativeTarget_def timeOrNoon_def zavtraAt9_facts parts_morning
        add_one_day_oct4 build_oct5)
qed

section \<open>The clock\<close>

lemma addDays_fields:
  assumes "year p = year q" "month p = month q" "day p = day q" "hour p = hour q"
    "minute p = minute q"
  shows "addDaysLocalParts z p n = addDaysLocalParts z q n"
  using assms by (simp add: addDaysLocalParts_def)

lemma weekdayTarget_fields:
  assumes "tz e1 = tz e2" "host e1 = host e2"
    and "year p = year q" "month p = month q" "day p = day q" "hour p = hour q"
    "minute p = minute q"
  shows "weekdayTarget e1 p idx lower = weekdayTarget e2 q idx lower"
proof -
  have "addDaysLocalParts z (p\<lparr>hour := h, minute := m\<rparr>) n
          = addDaysLocalParts z (q\<lparr>hour := h, minute := m\<rparr>) n" for z h m n
    using assms by (intro addDays_fields) simp_all
  then show ?thesis
    using assms by (simp add: weekdayTarget_def)
qed

lemma relativeTarget_fields:
  assumes "tz e1 = tz e2"
    and "year p = year q" "month p = month q" "day p = day q" "hour p = hour q"
    "minute p = minute q"
  shows "relativeTarget e1 p n lower = relativeTarget e2 q n lower"
proof -
  have "addDaysLocalParts z (p\<lparr>hour := h, minute := m\<rparr>) n
          = addDaysLocalParts z (q\<lparr>hour := h, minute := m\<rparr>) n" for z h m n
    using assms by (intro addDays_fields) simp_all
  then show ?thesis
    using assms by (simp add: relativeTarget_def)
qed

text \<open>
  C4 (amended). The resolver has no parameter for "now": it reads the wall clock itself,
  once, and uses the reading only through the year, month, day, hour and minute that it
  projects to in the configured zone. For a fixed text, zone, host zone and engine (its
  date parser and its case mapping), two evaluations whose clock readings project to the
  same local minute give the same pair of outputs.
\<close>

theorem resolver_depends_on_local_minute:
  assumes "tz e1 = tz e2" and "host e1 = host e2" and "dateParse e1 = dateParse e2"
    and "lowerCase e1 = lowerCase e2"
    and "year (getTzParts (tz e1) (clock e1)) = year (getTzParts (tz e2) (clock e2))"
    and "month (getTzParts (tz e1) (clock e1)) = month (getTzParts (tz e2) (clock e2))"
    and "day (getTzParts (tz e1) (clock e1)) = day (getTzParts (tz e2) (clock e2))"
    and "hour (getTzParts (tz e1) (clock e1)) = hour (getTzParts (tz e2) (clock e2))"
    and "minute (getTzParts (tz e1) (clock e1)) = minute (getTzParts (tz e2) (clock e2))"
  shows "normalizeWhenLocalPair e1 input = normalizeWhenLocalPair e2 input"
proof -
  note w = weekdayTarget_fields [OF assms(1,2,5-9)]
  note r = relativeTarget_fields [OF assms(1,5-9)]
  have l: "toLowerCase e1 s = toLowerCase e2 s" for s
    using assms(4) by (simp add: toLowerCase_def)
  show ?thesis
    unfolding normalizeWhenLocalPair_def Let_def w r l
    using assms(1,3,5,6,7) by (simp split: option.split prod.split)
qed

lemma parts_lateNight_30s:
  "getTzParts omskZone (lateNight + 30000) =
     \<lparr>year = 2025, month = 10, day = 4, hour = 23, minute = 10, second = 30\<rparr>"
  by code_simp

theorem resolver_depends_on_local_minute_witness:
  "tz (envAt lateNight) = tz (envAt (lateNight + 30000))
   \<and> host (envAt lateNight) = host (envAt (lateNight + 30000))
   \<and> dateParse (envAt lateNight) = dateParse (envAt (lateNight + 30000))
   \<and> lowerCase (envAt lateNight) = lowerCase (envAt (lateNight + 30000))
   \<and> getTzParts (tz (envAt lateNight)) (clock (envAt lateNight))
       = \<lparr>year = 2025, month = 10, day = 4, hour = 23, minute = 10, second = 0\<rparr>
   \<and> getTzParts (tz (envAt (lateNight + 30000))) (clock (envAt (lateNight + 30000)))
       = \<lparr>year = 2025, month = 10, day = 4, hour = 23, minute = 10, second = 30\<rparr>
   \<and> normalizeWhenLocalPair (envAt lateNight) zavtra
       = normalizeWhenLocalPair (envAt (lateNight + 30000)) zavtra"
proof -
  have p1: "getTzParts (tz (envAt lateNight)) (clock (envAt lateNight))
       = \<lparr>year = 2025, month = 10, day = 4, hour = 23, minute = 10, second = 0\<rparr>"
    by (simp add: parts_lateNight)
  have p2: "getTzParts (tz (envAt (lateNight + 30000))) (clock (envAt (lateNight + 30000)))
       = \<lparr>year = 2025, month = 10, day = 4, hour = 23, minute = 10, second = 30\<rparr>"
    by (simp add: parts_lateNight_30s)
  have "normalizeWhenLocalPair (envAt lateNight) zavtra
       = normalizeWhenLocalPair (envAt (lateNight + 30000)) zavtra"
    by (rule resolver_depends_on_local_minute)
      (simp_all add: parts_lateNight parts_lateNight_30s, simp_all add: envAt_def)
  with p1 p2 show ?thesis
    by (simp add: envAt_def)
qed

text \<open>
  C4 as stated fails: the resolver reads the wall clock. The same text, zone, host and
  engine give different outputs at two clock readings an hour apart.
\<close>

lemma host_envAt: "host (envAt t) = utcZone"
  by (simp add: envAt_def)

lemma lowerCase_envAt: "lowerCase (envAt t) = map lowerUnit"
  by (simp add: envAt_def)

lemma parts_afterMidnight:
  "getTzParts omskZone afterMidnight =
     \<lparr>year = 2025, month = 10, day = 5, hour = 0, minute = 10, second = 0\<rparr>"
  by code_simp

lemma add_one_day_oct5:
  "addDaysLocalParts omskZone
     \<lparr>year = 2025, month = 10, day = 5, hour = 12, minute = 0, second = 0\<rparr> 1
   = \<lparr>year = 2025, month = 10, day = 6, hour = 12, minute = 0\<rparr>"
  by code_simp

lemma build_oct6:
  "build omskZone 2025 10 6 12 0 =
     \<lparr>utcISO = ISOString 1759730400000, localPlain = ascii ''2025-10-06T12:00:00''\<rparr>"
  by code_simp

lemma zavtra_afterMidnight:
  "normalizeWhenLocalPair (envAt afterMidnight) zavtra =
     \<lparr>utcISO = ISOString 1759730400000, localPlain = ascii ''2025-10-06T12:00:00''\<rparr>"
  by (simp add: normalizeWhenLocalPair_def relativeTarget_def Let_def lower_zavtra
      zavtra_no_weekday zavtra_tests zavtra_noon parts_afterMidnight add_one_day_oct5 build_oct6)

theorem resolver_reads_clock_counterexample:
  "tz (envAt lateNight) = tz (envAt afterMidnight)
   \<and> host (envAt lateNight) = host (envAt afterMidnight)
   \<and> dateParse (envAt lateNight) = dateParse (envAt afterMidnight)
   \<and> lowerCase (envAt lateNight) = lowerCase (envAt afterMidnight)
   \<and> normalizeWhenLocalPair (envAt lateNight) zavtra
       = \<lparr>utcISO = ISOString 1759644000000, localPlain = ascii ''2025-10-05T12:00:00''\<rparr>
   \<and> normalizeWhenLocalPair (envAt afterMidnight) zavtra
       = \<lparr>utcISO = ISOString 1759730400000, localPlain = ascii ''2025-10-06T12:00:00''\<rparr>
   \<and> normalizeWhenLocalPair (envAt lateNight) zavtra
       \<noteq> normalizeWhenLocalPair (envAt afterMidnight) zavtra"
  by (simp add: zavtra_late zavtra_afterMidnight host_envAt lowerCase_envAt)

section \<open>The calendar\<close>

text \<open>
  The year computed by \<open>yearFromDay\<close> starts on or before the day, at most 365 days
  earlier, so the day of the year is never negative.
\<close>

lemma dayFromYear_cycles:
  assumes "0 \<le> b" "b \<le> 3" "0 \<le> c" "c \<le> 24" "0 \<le> e" "e \<le> 3"
  shows "dayFromYear (1601 + 400 * a + 100 * b + 4 * c + e)
           = - 134774 + 146097 * a + 36524 * b + 1461 * c + 365 * e"
proof -
  have 1: "(1601 + 400 * a + 100 * b + 4 * c + e - 1601) div 400 = a"
    using assms by arith
  have 2: "(1601 + 400 * a + 100 * b + 4 * c + e - 1901) div 100 = 4 * a + b - 3"
    using assms by arith
  have 3: "(1601 + 400 * a + 100 * b + 4 * c + e - 1969) div 4 = 100 * a + 25 * b + c - 92"
    using assms by arith
  show ?thesis
    unfolding dayFromYear_def 1 2 3 by simp
qed

lemma yearFromDay_cycles:
  obtains a b c e d3 where
    "yearFromDay d = 1601 + 400 * a + 100 * b + 4 * c + e"
    "d = - 134774 + 146097 * a + 36524 * b + 1461 * c + d3"
    "0 \<le> b" "b \<le> 3" "0 \<le> c" "c \<le> 24" "0 \<le> e" "e \<le> 3"
    "0 \<le> d3 - 365 * e" "d3 - 365 * e \<le> 365" "d3 \<le> 1460"
    "e < 3 \<longrightarrow> d3 - 365 * e < 365"
    "b < 3 \<longrightarrow> 1461 * c + d3 < 36524"
    "36524 * b + 1461 * c + d3 < 146097"
proof -
  define d0 where "d0 = d + 134774"
  define a where "a = d0 div 146097"
  define d1 where "d1 = d0 mod 146097"
  define q1 where "q1 = d1 div 36524"
  define b where "b = min 3 q1"
  define d2 where "d2 = d1 - b * 36524"
  define c where "c = d2 div 1461"
  define d3 where "d3 = d2 mod 1461"
  define q3 where "q3 = d3 div 365"
  define e where "e = min 3 q3"
  have y: "yearFromDay d = 1601 + 400 * a + 100 * b + 4 * c + e"
    unfolding yearFromDay_def Let_def e_def q3_def d3_def c_def d2_def b_def q1_def d1_def
      a_def d0_def by (rule refl)
  have r1: "0 \<le> d1" "d1 < 146097"
    by (simp_all add: d1_def)
  have "d1 = 36524 * q1 + d1 mod 36524" "0 \<le> d1 mod 36524" "d1 mod 36524 < 36524"
    by (simp_all add: q1_def)
  then have q1: "0 \<le> q1" "36524 * q1 \<le> d1" "d1 < 36524 * q1 + 36524"
    using r1 by linarith+
  have rb: "0 \<le> b" "b \<le> 3"
    using q1 by (simp_all add: b_def)
  have r2: "0 \<le> d2" "d2 \<le> 36524"
    using r1 q1 unfolding d2_def b_def by linarith+
  have r2': "d2 < 36524" if "b < 3"
    using that r1 q1 unfolding d2_def b_def by linarith
  have "d2 = 1461 * c + d3" and r3: "0 \<le> d3" "d3 < 1461"
    by (simp_all add: c_def d3_def)
  then have rc: "0 \<le> c" "c \<le> 24" and d2: "d2 = 1461 * c + d3"
    using r2 by linarith+
  have "d3 = 365 * q3 + d3 mod 365" "0 \<le> d3 mod 365" "d3 mod 365 < 365"
    by (simp_all add: q3_def)
  then have q3: "0 \<le> q3" "365 * q3 \<le> d3" "d3 < 365 * q3 + 365"
    using r3 by linarith+
  have re: "0 \<le> e" "e \<le> 3"
    using q3 by (simp_all add: e_def)
  have r4: "0 \<le> d3 - 365 * e" "d3 - 365 * e \<le> 365"
    using r3 q3 unfolding e_def by linarith+
  have r4': "d3 - 365 * e < 365" if "e < 3"
    using that r3 q3 unfolding e_def by linarith
  have "d0 = 146097 * a + d1"
    by (simp add: a_def d1_def)
  then have dd: "d = - 134774 + 146097 * a + 36524 * b + 1461 * c + d3"
    using d2 by (simp add: d0_def d2_def)
  have r5: "b < 3 \<longrightarrow> 1461 * c + d3 < 36524"
    using r2' d2 by simp
  have r6: "36524 * b + 1461 * c + d3 < 146097"
    using r1 d2 by (simp add: d2_def)
  from y dd rb rc re r4 r4' r3 r5 r6 show ?thesis
    by (intro that [of a b c e d3]) simp_all
qed

lemma yearFromDay_doy:
  "0 \<le> d - dayFromYear (yearFromDay d) \<and> d - dayFromYear (yearFromDay d) \<le> 365"
proof -
  obtain a b c e d3 where
    y: "yearFromDay d = 1601 + 400 * a + 100 * b + 4 * c + e"
    and d: "d = - 134774 + 146097 * a + 36524 * b + 1461 * c + d3"
    and r: "0 \<le> b" "b \<le> 3" "0 \<le> c" "c \<le> 24" "0 \<le> e" "e \<le> 3"
    and r4: "0 \<le> d3 - 365 * e" "d3 - 365 * e \<le> 365"
    by (rule yearFromDay_cycles [of d])
  have "d - dayFromYear (yearFromDay d) = d3 - 365 * e"
    unfolding y dayFromYear_cycles [OF r] using d by simp
  with r4 show ?thesis by simp
qed

lemma yearFromDay_lower:
  assumes "- 426968 - 146097 \<le> d"
  shows "401 \<le> yearFromDay d"
proof -
  obtain a b c e d3 where
    y: "yearFromDay d = 1601 + 400 * a + 100 * b + 4 * c + e"
    and d: "d = - 134774 + 146097 * a + 36524 * b + 1461 * c + d3"
    and r: "0 \<le> b" "b \<le> 3" "0 \<le> c" "c \<le> 24" "0 \<le> e" "e \<le> 3"
    and r3: "d3 \<le> 1460"
    by (rule yearFromDay_cycles [of d])
  have "- 3 \<le> a"
    using assms d r r3 by linarith
  with r show ?thesis
    unfolding y by linarith
qed

lemma yearFromDay_upper:
  assumes "1000 \<le> yearFromDay d"
  shows "- 426968 \<le> d"
proof -
  obtain a b c e d3 where
    y: "yearFromDay d = 1601 + 400 * a + 100 * b + 4 * c + e"
    and d: "d = - 134774 + 146097 * a + 36524 * b + 1461 * c + d3"
    and r: "0 \<le> b" "b \<le> 3" "0 \<le> c" "c \<le> 24" "0 \<le> e" "e \<le> 3"
    and r4: "0 \<le> d3 - 365 * e"
    by (rule yearFromDay_cycles [of d])
  have "- 2 \<le> a"
    using assms r unfolding y by linarith
  with d r r4 show ?thesis
    by linarith
qed

text \<open>
  \<open>yearFromDay\<close> is the \<open>YearFromTime\<close> of ECMAScript: the year starts on or before the
  day, and the next year starts after it.
\<close>

lemma yearFromDay_spec:
  "dayFromYear (yearFromDay d) \<le> d \<and> d < dayFromYear (yearFromDay d + 1)"
proof -
  obtain a b c e d3 where
    y: "yearFromDay d = 1601 + 400 * a + 100 * b + 4 * c + e"
    and d: "d = - 134774 + 146097 * a + 36524 * b + 1461 * c + d3"
    and r: "0 \<le> b" "b \<le> 3" "0 \<le> c" "c \<le> 24" "0 \<le> e" "e \<le> 3"
    and r4: "0 \<le> d3 - 365 * e" and r3: "d3 \<le> 1460"
    and r5: "e < 3 \<longrightarrow> d3 - 365 * e < 365"
    and r6: "b < 3 \<longrightarrow> 1461 * c + d3 < 36524"
    and r7: "36524 * b + 1461 * c + d3 < 146097"
    by (rule yearFromDay_cycles [of d])
  have lo: "dayFromYear (yearFromDay d) \<le> d"
    unfolding y dayFromYear_cycles [OF r] using d r4 by simp
  have hi: "d < dayFromYear (yearFromDay d + 1)"
  proof -
    consider "e < 3" | "e = 3" "c < 24" | "e = 3" "c = 24" "b < 3" | "e = 3" "c = 24" "b = 3"
      using r by linarith
    then show ?thesis
    proof cases
      case 1
      have "yearFromDay d + 1 = 1601 + 400 * a + 100 * b + 4 * c + (e + 1)"
        by (simp add: y)
      moreover have "dayFromYear (1601 + 400 * a + 100 * b + 4 * c + (e + 1))
          = - 134774 + 146097 * a + 36524 * b + 1461 * c + 365 * (e + 1)"
        using r 1 by (intro dayFromYear_cycles) simp_all
      ultimately show ?thesis
        using d r5 1 by simp
    next
      case 2
      have "yearFromDay d + 1 = 1601 + 400 * a + 100 * b + 4 * (c + 1) + 0"
        by (simp add: y 2)
      moreover have "dayFromYear (1601 + 400 * a + 100 * b + 4 * (c + 1) + 0)
          = - 134774 + 146097 * a + 36524 * b + 1461 * (c + 1) + 365 * 0"
        using r 2 by (intro dayFromYear_cycles) simp_all
      ultimately show ?thesis
        using d r3 by simp
    next
      case 3
      have "yearFromDay d + 1 = 1601 + 400 * a + 100 * (b + 1) + 4 * 0 + 0"
        by (simp add: y 3)
      moreover have "dayFromYear (1601 + 400 * a + 100 * (b + 1) + 4 * 0 + 0)
          = - 134774 + 146097 * a + 36524 * (b + 1) + 1461 * 0 + 365 * 0"
        using r 3 by (intro dayFromYear_cycles) simp_all
      ultimately show ?thesis
        using d r6 3 by simp
    next
      case 4
      have "yearFromDay d + 1 = 1601 + 400 * (a + 1) + 100 * 0 + 4 * 0 + 0"
        by (simp add: y 4)
      moreover have "dayFromYear (1601 + 400 * (a + 1) + 100 * 0 + 4 * 0 + 0)
          = - 134774 + 146097 * (a + 1) + 36524 * 0 + 1461 * 0 + 365 * 0"
        by (intro dayFromYear_cycles) simp_all
      ultimately show ?thesis
        using d r7 4 by simp
    qed
  qed
  from lo hi show ?thesis ..
qed

lemma monthStart_vals:
  "monthStart l 0 = 0" "monthStart l 1 = 31"
  "monthStart l 2 = (if l then 60 else 59)" "monthStart l 3 = (if l then 91 else 90)"
  "monthStart l 4 = (if l then 121 else 120)" "monthStart l 5 = (if l then 152 else 151)"
  "monthStart l 6 = (if l then 182 else 181)" "monthStart l 7 = (if l then 213 else 212)"
  "monthStart l 8 = (if l then 244 else 243)" "monthStart l 9 = (if l then 274 else 273)"
  "monthStart l 10 = (if l then 305 else 304)" "monthStart l 11 = (if l then 335 else 334)"
  by (simp_all add: monthStart_def)

lemma monthFromDoy_cases:
  "monthFromDoy l n \<in> {0, 1, 2, 3, 4, 5, 6, 7, 8, 9, 10, 11}"
  by (simp add: monthFromDoy_def)

lemma monthDay_range:
  assumes "0 \<le> n" "n \<le> 365"
  shows "0 \<le> monthFromDoy l n \<and> monthFromDoy l n \<le> 11
         \<and> 1 \<le> n - monthStart l (monthFromDoy l n) + 1
         \<and> n - monthStart l (monthFromDoy l n) + 1 \<le> 32"
proof (cases l)
  case True
  with assms show ?thesis
    unfolding monthFromDoy_def by (simp add: monthStart_vals)
next
  case False
  with assms show ?thesis
    unfolding monthFromDoy_def by (simp add: monthStart_vals)
qed


lemma makeDay_month:
  assumes "0 \<le> m" "m \<le> 11"
  shows "makeDay y m d = dayFromYear y + monthStart (inLeapYear y) m + d - 1"
  using assms by (simp add: makeDay_def Let_def)

text \<open>The fields of a local time, and \<open>Date.UTC\<close> of them.\<close>

lemma hour_range: "0 \<le> (x::int) \<Longrightarrow> x < 86400 \<Longrightarrow> 0 \<le> x div 3600 \<and> x div 3600 \<le> 23"
  by arith

lemma minute_range: "0 \<le> (x::int) \<Longrightarrow> x < 3600 \<Longrightarrow> 0 \<le> x div 60 \<and> x div 60 \<le> 59"
  by arith

lemma parts_ranges:
  "1 \<le> month (getTzParts z t) \<and> month (getTzParts z t) \<le> 12
   \<and> 1 \<le> day (getTzParts z t) \<and> day (getTzParts z t) \<le> 32
   \<and> 0 \<le> hour (getTzParts z t) \<and> hour (getTzParts z t) \<le> 23
   \<and> 0 \<le> minute (getTzParts z t) \<and> minute (getTzParts z t) \<le> 59
   \<and> 0 \<le> second (getTzParts z t) \<and> second (getTzParts z t) \<le> 59"
proof -
  define dn where "dn = (t + z t) div 1000 div 86400"
  define sod where "sod = (t + z t) div 1000 mod 86400"
  define y where "y = yearFromDay dn"
  define n where "n = dn - dayFromYear y"
  have n: "0 \<le> n" "n \<le> 365"
    using yearFromDay_doy [of dn] by (simp_all add: n_def y_def)
  note md = monthDay_range [OF n, of "inLeapYear y"]
  have s: "0 \<le> sod" "sod < 86400"
    by (simp_all add: sod_def)
  note h = hour_range [OF s]
  have "0 \<le> sod mod 3600" "sod mod 3600 < 3600"
    by simp_all
  note mi = minute_range [OF this]
  have "0 \<le> sod mod 60" "sod mod 60 < 60"
    by simp_all
  then have se: "0 \<le> sod mod 60 \<and> sod mod 60 \<le> 59"
    by linarith
  have p: "getTzParts z t =
          \<lparr> year = y, month = monthFromDoy (inLeapYear y) n + 1,
            day = n - monthStart (inLeapYear y) (monthFromDoy (inLeapYear y) n) + 1,
            hour = sod div 3600, minute = sod mod 3600 div 60, second = sod mod 60 \<rparr>"
    by (simp add: getTzParts_def Let_def dn_def sod_def y_def n_def)
  show ?thesis
    unfolding p using md h mi se by simp
qed

lemma minutes_of_fields:
  "(t::int) div 1000 div 86400 * 86400000 + t div 1000 mod 86400 div 3600 * 3600000
      + t div 1000 mod 86400 mod 3600 div 60 * 60000
   = t div 60000 * 60000"
proof -
  define S where "S = t div 1000"
  define dn where "dn = S div 86400"
  define sod where "sod = S mod 86400"
  define hh where "hh = sod div 3600"
  define r where "r = sod mod 3600"
  define mm where "mm = r div 60"
  define ss where "ss = r mod 60"
  have 1: "S = 86400 * dn + sod"
    by (simp add: dn_def sod_def)
  have 2: "sod = 3600 * hh + r"
    by (simp add: hh_def r_def)
  have 3: "r = 60 * mm + ss"
    by (simp add: mm_def ss_def)
  have ss: "0 \<le> ss" "ss < 60"
    by (simp_all add: ss_def)
  have "S = 60 * (1440 * dn + 60 * hh + mm) + ss"
    unfolding 1 2 3 by simp
  then have "S div 60 = 1440 * dn + 60 * hh + mm"
    using ss by (simp add: div_pos_pos_trivial)
  moreover have "t div 60000 = S div 60"
    by (simp add: S_def zdiv_zmult2_eq [symmetric])
  ultimately have "t div 60000 * 60000 = dn * 86400000 + hh * 3600000 + mm * 60000"
    by simp
  then show ?thesis
    by (simp add: S_def dn_def sod_def hh_def r_def mm_def)
qed

lemma dateUTC_parts:
  assumes "year (getTzParts z t) < 0 \<or> 99 < year (getTzParts z t)"
  shows "dateUTC (year (getTzParts z t)) (month (getTzParts z t) - 1) (day (getTzParts z t))
           (hour (getTzParts z t)) (minute (getTzParts z t)) s
         = (t + z t) div 60000 * 60000 + s * 1000"
proof -
  define dn where "dn = (t + z t) div 1000 div 86400"
  define sod where "sod = (t + z t) div 1000 mod 86400"
  define y where "y = yearFromDay dn"
  define n where "n = dn - dayFromYear y"
  have n: "0 \<le> n" "n \<le> 365"
    using yearFromDay_doy [of dn] by (simp_all add: n_def y_def)
  note md = monthDay_range [OF n, of "inLeapYear y"]
  have p: "getTzParts z t =
          \<lparr> year = y, month = monthFromDoy (inLeapYear y) n + 1,
            day = n - monthStart (inLeapYear y) (monthFromDoy (inLeapYear y) n) + 1,
            hour = sod div 3600, minute = sod mod 3600 div 60, second = sod mod 60 \<rparr>"
    by (simp add: getTzParts_def Let_def dn_def sod_def y_def n_def)
  have yr: "(if 0 \<le> y \<and> y \<le> 99 then 1900 + y else y) = y"
    using assms by (auto simp: p)
  have mk: "makeDay y (monthFromDoy (inLeapYear y) n)
              (n - monthStart (inLeapYear y) (monthFromDoy (inLeapYear y) n) + 1) = dn"
    using md by (simp add: makeDay_month n_def)
  have "dn * 86400000 + sod div 3600 * 3600000 + sod mod 3600 div 60 * 60000
          = (t + z t) div 60000 * 60000"
    unfolding dn_def sod_def by (rule minutes_of_fields)
  then show ?thesis
    by (simp add: p dateUTC_def Let_def yr mk)
qed

lemma second_parts: "second (getTzParts z t) = (t + z t) div 1000 mod 60"
proof -
  have "(t + z t) div 1000 mod 86400 mod 60 = (t + z t) div 1000 mod 60"
    by (rule mod_mod_cancel) simp
  then show ?thesis
    unfolding getTzParts_def Let_def by (simp only: parts.simps)
qed

lemma offset_exact:
  assumes "z g mod 60000 = 0"
    and "year (getTzParts z g) < 0 \<or> 99 < year (getTzParts z g)"
  shows "getTzOffsetMinutes z g = z g div 60000"
proof -
  define L where "L = g + z g"
  define S where "S = L div 1000"
  define k where "k = z g div 60000"
  have o: "z g = 60000 * k"
    using assms(1) mult_div_mod_eq [of 60000 "z g"] by (simp add: k_def)
  have "L div 60000 = S div 60"
    by (simp add: S_def zdiv_zmult2_eq [symmetric])
  moreover have "S = 60 * (S div 60) + S mod 60"
    by simp
  ultimately have "L div 60000 * 60000 + S mod 60 * 1000 = S * 1000"
    by linarith
  moreover have "S * 1000 = L - L mod 1000"
    by (simp add: S_def minus_mod_eq_div_mult)
  ultimately have a: "dateUTC (year (getTzParts z g)) (month (getTzParts z g) - 1)
      (day (getTzParts z g)) (hour (getTzParts z g)) (minute (getTzParts z g))
      (second (getTzParts z g)) = L - L mod 1000"
    using dateUTC_parts [OF assms(2), of "second (getTzParts z g)"]
    by (simp add: second_parts L_def S_def)
  have r: "0 \<le> L mod 1000" "L mod 1000 < 1000"
    by simp_all
  have "L - L mod 1000 - g + 30000 = 60000 * k + (30000 - L mod 1000)"
    by (simp add: L_def o)
  moreover have "(60000 * k + (30000 - L mod 1000)) div 60000 = k"
    using r by (simp add: div_pos_pos_trivial)
  ultimately show ?thesis
    by (simp add: getTzOffsetMinutes_def Let_def a k_def)
qed

lemma zoned_stable:
  assumes "getTzOffsetMinutes z (dateUTC y (mo - 1) d h mi 0) = k"
    and "getTzOffsetMinutes z (dateUTC y (mo - 1) d h mi 0 - k * 60000) = k"
  shows "zonedDateTimeToUTCISO y mo d h mi z = dateUTC y (mo - 1) d h mi 0 - k * 60000"
  using assms by (simp add: zonedDateTimeToUTCISO_def Let_def numeral_2_eq_2)

text \<open>Decimal digits.\<close>

lemma isDigit_digit: "0 \<le> k \<Longrightarrow> k \<le> 9 \<Longrightarrow> isDigit (0x30 + k)"
  by (simp add: isDigit_def)

lemma pad2_digits:
  assumes "0 \<le> n" "n \<le> 99"
  shows "pad2 n = [0x30 + n div 10, 0x30 + n mod 10]"
proof (cases "n < 10")
  case True
  with assms show ?thesis
    by (simp add: pad2_def padStart_def toStr_def digitsOf.simps [of n])
next
  case False
  with assms have "n div 10 < 10"
    by arith
  with False assms show ?thesis
    by (simp add: pad2_def padStart_def toStr_def digitsOf.simps [of n]
        digitsOf.simps [of "n div 10"])
qed

lemma toStr_4digits:
  assumes "1000 \<le> n" "n \<le> 9999"
  shows "toStr n = [0x30 + n div 10 div 10 div 10, 0x30 + n div 10 div 10 mod 10,
                    0x30 + n div 10 mod 10, 0x30 + n mod 10]"
proof -
  have 1: "\<not> n < 10" "\<not> n div 10 < 10" "\<not> n div 10 div 10 < 10" "n div 10 div 10 div 10 < 10"
    using assms by arith+
  show ?thesis
    using assms 1
    by (simp add: toStr_def digitsOf.simps [of n] digitsOf.simps [of "n div 10"]
        digitsOf.simps [of "n div 10 div 10"] digitsOf.simps [of "n div 10 div 10 div 10"])
qed

lemma digitsVal_2: "digitsVal [0x30 + n div 10, 0x30 + n mod 10] = n"
  by (simp add: digitsVal_def)

lemma digitsVal_4:
  "digitsVal [0x30 + n div 10 div 10 div 10, 0x30 + n div 10 div 10 mod 10,
              0x30 + n div 10 mod 10, 0x30 + n mod 10] = n"
proof -
  have "10 * (10 * (10 * (n div 10 div 10 div 10) + n div 10 div 10 mod 10) + n div 10 mod 10)
          + n mod 10 = n"
    by simp
  then show ?thesis
    by (simp add: digitsVal_def)
qed

lemma parse_plain_digits:
  assumes "isDigit a1" "isDigit a2" "isDigit a3" "isDigit a4" "isDigit b1" "isDigit b2"
    "isDigit c1" "isDigit c2" "isDigit h1" "isDigit h2" "isDigit m1" "isDigit m2"
    "isDigit s1" "isDigit s2"
  shows "parseLocalPlainToDate e
           [a1, a2, a3, a4, 0x2D, b1, b2, 0x2D, c1, c2, 0x54, h1, h2, 0x3A, m1, m2, 0x3A, s1, s2]
         = Some (zonedDateTimeToUTCISO (digitsVal [a1, a2, a3, a4]) (digitsVal [b1, b2])
             (digitsVal [c1, c2]) (digitsVal [h1, h2]) (digitsVal [m1, m2]) (tz e))"
  using assms
  by (simp add: parseLocalPlainToDate_def reLocalPlain_def exec_def sq_def capVal_def group_def)

lemma mod10_digit: "isDigit (0x30 + (x::int) mod 10)"
proof -
  define r where "r = x mod 10"
  have "0 \<le> r" "r < 10"
    by (simp_all add: r_def)
  then have "isDigit (0x30 + r)"
    by (simp add: isDigit_def)
  then show ?thesis
    by (simp add: r_def)
qed

lemma div10_digit:
  assumes "0 \<le> (x::int)" "x \<le> 99"
  shows "isDigit (0x30 + x div 10)"
proof -
  define q where "q = x div 10"
  have "0 \<le> q" "q \<le> 9"
    using assms unfolding q_def by arith+
  then have "isDigit (0x30 + q)"
    by (simp add: isDigit_def)
  then show ?thesis
    by (simp add: q_def)
qed

lemma digits_2:
  assumes "0 \<le> n" "n \<le> 99"
  shows "isDigit (0x30 + n div 10) \<and> isDigit (0x30 + n mod 10)"
  using div10_digit [OF assms] mod10_digit [of n] by blast

lemma digits_4:
  assumes "1000 \<le> n" "n \<le> 9999"
  shows "isDigit (0x30 + n div 10 div 10 div 10) \<and> isDigit (0x30 + n div 10 div 10 mod 10)
         \<and> isDigit (0x30 + n div 10 mod 10) \<and> isDigit (0x30 + n mod 10)"
proof -
  define q where "q = n div 10 div 10"
  have "0 \<le> q" "q \<le> 99"
    using assms unfolding q_def by arith+
  from div10_digit [OF this] have "isDigit (0x30 + n div 10 div 10 div 10)"
    by (simp only: q_def)
  then show ?thesis
    using mod10_digit [of n] mod10_digit [of "n div 10"] mod10_digit [of "n div 10 div 10"]
    by blast
qed

lemma year_parts: "year (getTzParts z t) = yearFromDay ((t + z t) div 86400000)"
proof -
  have "(t + z t) div 1000 div 86400 = (t + z t) div 86400000"
    by (simp add: zdiv_zmult2_eq [symmetric])
  then show ?thesis
    unfolding getTzParts_def Let_def by (simp only: parts.simps civil.simps)
qed

lemma format_parse:
  assumes "1000 \<le> year (getTzParts (tz e) t)" "year (getTzParts (tz e) t) \<le> 9999"
  shows "parseLocalPlainToDate e (formatLocalPlain t (tz e))
         = Some (zonedDateTimeToUTCISO (year (getTzParts (tz e) t)) (month (getTzParts (tz e) t))
             (day (getTzParts (tz e) t)) (hour (getTzParts (tz e) t))
             (minute (getTzParts (tz e) t)) (tz e))"
proof -
  define p where "p = getTzParts (tz e) t"
  note r = parts_ranges [of "tz e" t, folded p_def]
  have mo: "0 \<le> month p" "month p \<le> 99" and d: "0 \<le> day p" "day p \<le> 99"
    and h: "0 \<le> hour p" "hour p \<le> 99" and mi: "0 \<le> minute p" "minute p \<le> 99"
    and se: "0 \<le> second p" "second p \<le> 99"
    using r by linarith+
  note y = assms [folded p_def]
  have f: "formatLocalPlain t (tz e)
             = [0x30 + year p div 10 div 10 div 10, 0x30 + year p div 10 div 10 mod 10,
                0x30 + year p div 10 mod 10, 0x30 + year p mod 10, 0x2D,
                0x30 + month p div 10, 0x30 + month p mod 10, 0x2D,
                0x30 + day p div 10, 0x30 + day p mod 10, 0x54,
                0x30 + hour p div 10, 0x30 + hour p mod 10, 0x3A,
                0x30 + minute p div 10, 0x30 + minute p mod 10, 0x3A,
                0x30 + second p div 10, 0x30 + second p mod 10]"
    unfolding formatLocalPlain_def Let_def p_def [symmetric]
    by (simp add: toStr_4digits [OF y] pad2_digits [OF mo] pad2_digits [OF d]
        pad2_digits [OF h] pad2_digits [OF mi] pad2_digits [OF se] ascii_def)
  show ?thesis
    unfolding f p_def [symmetric]
    using digits_4 [OF y] digits_2 [OF mo] digits_2 [OF d] digits_2 [OF h] digits_2 [OF mi]
      digits_2 [OF se]
    by (simp only: parse_plain_digits digitsVal_2 digitsVal_4)
qed

lemma day_shift:
  assumes "x - 86460000 \<le> (y::int)"
  shows "x div 86400000 - 2 \<le> y div 86400000"
proof -
  have "(x - 2 * 86400000) div 86400000 \<le> y div 86400000"
    using assms by (intro zdiv_mono1) simp_all
  moreover have "(x - 2 * 86400000) div 86400000 = x div 86400000 - 2"
    by (simp add: div_diff)
  ultimately show ?thesis by simp
qed

lemma near_year:
  assumes "1000 \<le> year (getTzParts z t)" and "z g = z t"
    and "t + z t - 86460000 \<le> g + z t"
  shows "year (getTzParts z g) < 0 \<or> 99 < year (getTzParts z g)"
proof -
  have "- 426968 \<le> (t + z t) div 86400000"
    using assms(1) by (simp add: year_parts yearFromDay_upper)
  moreover have "(t + z t) div 86400000 - 2 \<le> (g + z t) div 86400000"
    using assms(3) by (rule day_shift)
  ultimately have "- 426968 - 146097 \<le> (g + z t) div 86400000"
    by linarith
  then have "401 \<le> yearFromDay ((g + z t) div 86400000)"
    by (rule yearFromDay_lower)
  then show ?thesis
    by (simp add: year_parts assms(2))
qed

section \<open>The round trip through the local string\<close>

text \<open>
  C3. Take an instant whose local year in the zone has four digits, in a zone whose offset
  at the instant is a whole number of minutes, at most a day, and the same at every instant
  within the offset plus one minute of it (the instant is away from a transition). Formatting
  it as a local string and parsing the string back gives the instant again at the
  precision of the string's conversion, which is the minute: the seconds and milliseconds
  are dropped, so the result is less than 60000 milliseconds below the instant.
\<close>

theorem plain_roundtrip:
  assumes whole: "tz e t mod 60000 = 0"
    and small: "\<bar>tz e t\<bar> \<le> 86400000"
    and stable: "\<forall>u. \<bar>u - t\<bar> \<le> \<bar>tz e t\<bar> + 60000 \<longrightarrow> tz e u = tz e t"
    and y4: "1000 \<le> year (getTzParts (tz e) t)" "year (getTzParts (tz e) t) \<le> 9999"
  shows "parseLocalPlainToDate e (formatLocalPlain t (tz e)) = Some (t - t mod 60000)
         \<and> \<bar>(t - t mod 60000) - t\<bar> < 60000"
proof -
  define z where "z = tz e"
  define ofs where "ofs = z t"
  define k where "k = ofs div 60000"
  define r where "r = t mod 60000"
  define base where "base = (t + ofs) div 60000 * 60000"
  have r: "0 \<le> r" "r < 60000"
    by (simp_all add: r_def)
  have whole': "ofs mod 60000 = 0" and small': "\<bar>ofs\<bar> \<le> 86400000"
    and y: "1000 \<le> year (getTzParts z t)"
    using whole small y4(1) by (simp_all add: ofs_def z_def)
  have stable': "z u = ofs" if "\<bar>u - t\<bar> \<le> \<bar>ofs\<bar> + 60000" for u
    using stable [rule_format, of u] that by (simp add: ofs_def z_def)
  have ok: "ofs = 60000 * k"
    using whole' mult_div_mod_eq [of 60000 ofs] by (simp add: k_def)
  have "(t + ofs) mod 60000 = r"
    by (simp add: ok r_def)
  then have base: "base = t + ofs - r"
    by (simp add: base_def minus_mod_eq_div_mult [symmetric])
  have yr: "year (getTzParts z t) < 0 \<or> 99 < year (getTzParts z t)"
    using y by simp
  have b0: "dateUTC (year (getTzParts z t)) (month (getTzParts z t) - 1) (day (getTzParts z t))
              (hour (getTzParts z t)) (minute (getTzParts z t)) 0 = base"
    using dateUTC_parts [OF yr, of 0] by (simp add: base_def ofs_def)
  have s1: "z base = ofs"
    using r by (intro stable') (simp add: base; linarith)
  have s2: "z (base - k * 60000) = ofs"
    using r by (intro stable') (simp add: base ok; linarith)
  have y1: "year (getTzParts z base) < 0 \<or> 99 < year (getTzParts z base)"
  proof (rule near_year [OF y])
    show "z base = z t"
      by (simp add: s1 ofs_def)
    show "t + z t - 86460000 \<le> base + z t"
      using r small' by (simp add: base ofs_def [symmetric]; linarith)
  qed
  have y2: "year (getTzParts z (base - k * 60000)) < 0
            \<or> 99 < year (getTzParts z (base - k * 60000))"
  proof (rule near_year [OF y])
    show "z (base - k * 60000) = z t"
      by (simp add: s2 ofs_def)
    show "t + z t - 86460000 \<le> base - k * 60000 + z t"
      using r small' by (simp add: base ok ofs_def [symmetric]; linarith)
  qed
  have "getTzOffsetMinutes z base = z base div 60000"
    using y1 by (rule offset_exact [rotated]) (simp add: s1 whole')
  then have o1: "getTzOffsetMinutes z base = k"
    using s1 by (simp add: k_def)
  have "getTzOffsetMinutes z (base - k * 60000) = z (base - k * 60000) div 60000"
    using y2 by (rule offset_exact [rotated]) (simp add: s2 whole')
  then have o2: "getTzOffsetMinutes z (base - k * 60000) = k"
    using s2 by (simp add: k_def)
  have "zonedDateTimeToUTCISO (year (getTzParts z t)) (month (getTzParts z t))
          (day (getTzParts z t)) (hour (getTzParts z t)) (minute (getTzParts z t)) z
        = base - k * 60000"
    by (rule zoned_stable [of z "year (getTzParts z t)" "month (getTzParts z t)"
          "day (getTzParts z t)" "hour (getTzParts z t)" "minute (getTzParts z t)" k,
          unfolded b0, OF o1 o2])
  also have "\<dots> = t - t mod 60000"
    by (simp add: base ok r_def)
  finally have "parseLocalPlainToDate e (formatLocalPlain t (tz e)) = Some (t - t mod 60000)"
    using format_parse [OF y4] by (simp add: z_def)
  moreover have "\<bar>(t - t mod 60000) - t\<bar> < 60000"
    using r by (simp add: r_def)
  ultimately show ?thesis by blast
qed

lemma parts_roundtrip:
  "getTzParts omskZone (lateNight + 30123) =
     \<lparr>year = 2025, month = 10, day = 4, hour = 23, minute = 10, second = 30\<rparr>"
  by code_simp

theorem plain_roundtrip_witness:
  "tz (envAt morning) (lateNight + 30123) mod 60000 = 0
   \<and> \<bar>tz (envAt morning) (lateNight + 30123)\<bar> \<le> 86400000
   \<and> (\<forall>u. tz (envAt morning) u = tz (envAt morning) (lateNight + 30123))
   \<and> year (getTzParts (tz (envAt morning)) (lateNight + 30123)) = 2025
   \<and> parseLocalPlainToDate (envAt morning)
         (formatLocalPlain (lateNight + 30123) (tz (envAt morning))) = Some lateNight"
proof -
  have h1: "tz (envAt morning) (lateNight + 30123) mod 60000 = 0"
    and h2: "\<bar>tz (envAt morning) (lateNight + 30123)\<bar> \<le> 86400000"
    and h3: "\<forall>u. \<bar>u - (lateNight + 30123)\<bar> \<le> \<bar>tz (envAt morning) (lateNight + 30123)\<bar> + 60000
               \<longrightarrow> tz (envAt morning) u = tz (envAt morning) (lateNight + 30123)"
    and h3': "\<forall>u. tz (envAt morning) u = tz (envAt morning) (lateNight + 30123)"
    by (simp_all add: omskZone_def)
  have y: "year (getTzParts (tz (envAt morning)) (lateNight + 30123)) = 2025"
    by (simp add: parts_roundtrip)
  then have h4: "1000 \<le> year (getTzParts (tz (envAt morning)) (lateNight + 30123))"
    and h5: "year (getTzParts (tz (envAt morning)) (lateNight + 30123)) \<le> 9999"
    by simp_all
  have m: "lateNight + 30123 - (lateNight + 30123) mod 60000 = lateNight"
    by (simp add: lateNight_def)
  show ?thesis
    using h1 h2 h3' y plain_roundtrip [OF h1 h2 h3 h4 h5]
    by (simp only: m) simp
qed

section \<open>The weekday rule\<close>

text \<open>
  \<open>\b\<close> of a pattern without the \<open>u\<close> flag holds between a word character (an ASCII
  letter, a digit or the underscore) and a code unit that is none. A Cyrillic letter is
  none, so in a text without word characters no position is a word boundary, and no
  weekday pattern matches: each of their alternatives starts with \<open>\b\<close>.
\<close>

lemma ms_weekdayRe_no_boundary:
  "\<not> wordBefore p \<Longrightarrow> \<not> wordAfter s \<Longrightarrow> ms (weekdayRe a b c) (p, s, caps) = []"
  by (simp add: weekdayRe_def sq_def)

lemma execFrom_weekdayRe:
  "\<not> wordBefore p \<Longrightarrow> \<forall>x\<in>set s. \<not> isWordChar x \<Longrightarrow> execFrom (weekdayRe a b c) p s = None"
proof (induction s arbitrary: p)
  case Nil
  then show ?case
    by (simp add: ms_weekdayRe_no_boundary wordAfter_def)
next
  case (Cons x xs)
  have "ms (weekdayRe a b c) (p, x # xs, []) = []"
    using Cons.prems by (simp add: ms_weekdayRe_no_boundary wordAfter_def)
  moreover have "execFrom (weekdayRe a b c) (Some x) xs = None"
    using Cons.prems by (intro Cons.IH) (simp_all add: wordBefore_def)
  ultimately show ?case
    by simp
qed

lemma weekday_never:
  assumes "\<forall>x\<in>set s. \<not> isWordChar x"
  shows "find (\<lambda>(re, idx). test re s) weekdayDefs = None"
  using assms
  by (simp add: weekdayDefs_def test_def exec_def execFrom_weekdayRe wordBefore_def)

lemma lowerUnit_nonword: "\<not> isWordChar x \<Longrightarrow> \<not> isWordChar (lowerUnit x)"
  by (auto simp: isWordChar_def isDigit_def lowerUnit_def)

lemma set_trim: "set (trim s) \<subseteq> set s"
proof -
  have "set (dropWhile isSpace (rev (dropWhile isSpace s))) \<subseteq> set (rev (dropWhile isSpace s))"
    by (auto dest: set_dropWhileD)
  also have "\<dots> \<subseteq> set s"
    by (auto dest: set_dropWhileD)
  finally show ?thesis
    by (simp add: trim_def)
qed

lemma weekday_rule_dead:
  assumes "list_all plainUnit input" and "\<forall>x\<in>set input. \<not> isWordChar x"
  shows "find (\<lambda>(re, idx). test re (toLowerCase e (trim input))) weekdayDefs = None"
proof (rule weekday_never)
  have "list_all plainUnit (trim input)"
    using assms(1) set_trim [of input] by (auto simp: list_all_iff)
  then have "toLowerCase e (trim input) = map lowerUnit (trim input)"
    by (rule toLowerCase_plain)
  then show "\<forall>x\<in>set (toLowerCase e (trim input)). \<not> isWordChar x"
    using assms(2) set_trim [of input] by (auto simp: lowerUnit_nonword)
qed

lemma phrases_checked:
  "list_all (\<lambda>w. list_all plainUnit w
      \<and> list_all (\<lambda>x. \<not> isWordChar x) w
      \<and> trim w = w
      \<and> \<not> test rePoslezavtra (map lowerUnit w)
      \<and> \<not> test reZavtra (map lowerUnit w)
      \<and> \<not> test reSegodnya (map lowerUnit w)
      \<and> exec reDayMonth (map lowerUnit w) = None
      \<and> isoParse w = None) weekdayPhrases"
  by code_simp

text \<open>
  C1 says that a text with a Russian weekday name resolves to a date on that weekday
  whose instant is after now. The code does not do so at the phrases "v ponedel'nik",
  "vo vtornik", "v sredu", "v chetverg", "v pyatnitsu", "v subbotu", "v voskresen'e": none
  is resolved; each comes back as it was given, as the instant string and as the local
  string.
\<close>

theorem weekday_phrases_unresolved:
  "list_all (\<lambda>w. normalizeWhenLocalPair (envAt morning) w = \<lparr> utcISO = Text w, localPlain = w \<rparr>)
     weekdayPhrases"
proof -
  have "normalizeWhenLocalPair (envAt morning) w = \<lparr> utcISO = Text w, localPlain = w \<rparr>"
    if "list_all plainUnit w \<and> list_all (\<lambda>x. \<not> isWordChar x) w \<and> trim w = w
        \<and> \<not> test rePoslezavtra (map lowerUnit w) \<and> \<not> test reZavtra (map lowerUnit w)
        \<and> \<not> test reSegodnya (map lowerUnit w) \<and> exec reDayMonth (map lowerUnit w) = None
        \<and> isoParse w = None" for w
  proof -
    from that have "find (\<lambda>(re, idx). test re (toLowerCase (envAt morning) (trim w)))
        weekdayDefs = None"
      by (intro weekday_rule_dead) (simp_all add: list_all_iff)
    with that show ?thesis
      using norm_raw [of "envAt morning" w] by (simp add: toLowerCase_plain)
  qed
  then show ?thesis
    using phrases_checked by (simp add: list_all_iff)
qed

end
